theory Spec2Isabelle
  imports Complex_Main
begin

section \<open>Array2D: a two-dimensional array with axis metadata\<close>

text \<open>
  A shallow embedding of \<^verbatim>\<open>gwpy/types/array2d.py\<close>. Python attributes that may be
  absent (\<^verbatim>\<open>_y0\<close>, \<^verbatim>\<open>_dy\<close>, \<^verbatim>\<open>_yindex\<close>, ...) are option-valued record fields, a
  property getter that caches its default returns the updated object next to the value,
  and every \<^verbatim>\<open>raise\<close> is an \<open>Inl\<close> result. Numbers are exact rationals where the code
  has 64-bit floats: the rounding of floating-point arithmetic is not part of the model,
  so the statements below say which operations produce a value and do not rely on
  identities, such as \<open>(a + b) - a = b\<close>, that hold of exact numbers only.
\<close>

subsection \<open>Units, quantities and indexes\<close>

text \<open>
  A unit is a physical dimension with a scale relative to the base unit of that
  dimension; \<^verbatim>\<open>Unit('')\<close> is the dimensionless unit of scale one.
\<close>

datatype unit = Unit (dimension: string) (scale: rat)

definition dimensionless :: unit where
  "dimensionless = Unit [] 1"

datatype error =
    AttributeError string
  | IndexError string
  | TypeError string
  | ValueError string
  | UnitConversionError unit unit

definition bind_err :: "error + 'a \<Rightarrow> ('a \<Rightarrow> error + 'b) \<Rightarrow> error + 'b" where
  "bind_err m f = (case m of Inl e \<Rightarrow> Inl e | Inr x \<Rightarrow> f x)"

record quantity =
  qvalue :: rat
  qunit :: unit

text \<open>An \<^verbatim>\<open>Index\<close> is a one-dimensional quantity array: values and one unit.\<close>

record index =
  ivalue :: "rat list"
  iunit :: unit

text \<open>The arguments a setter can receive: \<^verbatim>\<open>None\<close>, a bare number, or a \<^verbatim>\<open>Quantity\<close>.\<close>

datatype pyval = PyNone | Bare rat | Quant quantity

text \<open>
  An array-like given as an index: a plain sequence without a \<^verbatim>\<open>unit\<close> attribute, or a
  quantity array (an \<^verbatim>\<open>Index\<close> included) that carries its unit.
\<close>

datatype array_like = Plain "rat list" | Tagged index

text \<open>
  The factor of a unit conversion; converting between the same unit is the identity,
  between units of different dimension it raises.
\<close>

definition factor :: "unit \<Rightarrow> unit \<Rightarrow> error + rat" where
  "factor u v =
     (if u = v then Inr 1
      else if dimension u = dimension v then Inr (scale u / scale v)
      else Inl (UnitConversionError u v))"

definition q_to :: "quantity \<Rightarrow> unit \<Rightarrow> error + quantity" where
  "q_to q u = bind_err (factor (qunit q) u) (\<lambda>f. Inr \<lparr>qvalue = qvalue q * f, qunit = u\<rparr>)"

text \<open>\<^verbatim>\<open>Quantity(value, unit)\<close>: a bare number is tagged, a quantity is converted.\<close>

definition Quantity :: "pyval \<Rightarrow> unit \<Rightarrow> error + quantity" where
  "Quantity v u =
     (case v of
        PyNone \<Rightarrow> Inl (TypeError ''None is not a number'')
      | Bare b \<Rightarrow> Inr \<lparr>qvalue = b, qunit = u\<rparr>
      | Quant q \<Rightarrow> q_to q u)"

text \<open>
  The value an origin setter goes on with after
  \<^verbatim>\<open>if not isinstance(value, Quantity): value = Quantity(value, unit)\<close>: a quantity as it
  is, a bare number tagged with the unit. The setters never reach it with \<^verbatim>\<open>None\<close>.
\<close>

definition tagged_value :: "pyval \<Rightarrow> unit \<Rightarrow> quantity" where
  "tagged_value val u = (case val of Quant q \<Rightarrow> q | Bare b \<Rightarrow> \<lparr>qvalue = b, qunit = u\<rparr>)"

text \<open>\<^verbatim>\<open>a + b\<close> and \<^verbatim>\<open>a - b\<close> on quantities: the result is in the unit of \<^verbatim>\<open>a\<close>.\<close>

definition q_add :: "quantity \<Rightarrow> quantity \<Rightarrow> error + quantity" where
  "q_add a b =
     bind_err (factor (qunit b) (qunit a))
       (\<lambda>f. Inr \<lparr>qvalue = qvalue a + qvalue b * f, qunit = qunit a\<rparr>)"

definition q_sub :: "quantity \<Rightarrow> quantity \<Rightarrow> error + quantity" where
  "q_sub a b =
     bind_err (factor (qunit b) (qunit a))
       (\<lambda>f. Inr \<lparr>qvalue = qvalue a - qvalue b * f, qunit = qunit a\<rparr>)"

text \<open>A quantity times a bare number.\<close>

definition q_scale :: "rat \<Rightarrow> quantity \<Rightarrow> quantity" where
  "q_scale k q = \<lparr>qvalue = k * qvalue q, qunit = qunit q\<rparr>"

text \<open>
  \<^verbatim>\<open>a != b\<close> on quantities: \<^verbatim>\<open>b\<close> is converted to the unit of \<^verbatim>\<open>a\<close>; quantities of
  different dimension are unequal.
\<close>

definition q_ne :: "quantity \<Rightarrow> quantity \<Rightarrow> bool" where
  "q_ne a b =
     (case factor (qunit b) (qunit a) of
        Inl e \<Rightarrow> True
      | Inr f \<Rightarrow> qvalue a \<noteq> qvalue b * f)"

text \<open>\<^verbatim>\<open>y0 + numpy.arange(n) * dy\<close>: the quantity array of a regular axis.\<close>

definition arange_times :: "nat \<Rightarrow> quantity \<Rightarrow> index" where
  "arange_times n d = \<lparr>ivalue = map (\<lambda>i. of_nat i * qvalue d) [0..<n], iunit = qunit d\<rparr>"

definition q_add_array :: "quantity \<Rightarrow> index \<Rightarrow> error + index" where
  "q_add_array a xs =
     bind_err (factor (iunit xs) (qunit a))
       (\<lambda>f. Inr \<lparr>ivalue = map (\<lambda>v. qvalue a + v * f) (ivalue xs), iunit = qunit a\<rparr>)"

text \<open>\<^verbatim>\<open>index[k]\<close> for a position counted from the front: out of range raises.\<close>

definition index_getitem :: "index \<Rightarrow> nat \<Rightarrow> error + quantity" where
  "index_getitem idx k =
     (if k < length (ivalue idx) then Inr \<lparr>qvalue = ivalue idx ! k, qunit = iunit idx\<rparr>
      else Inl (IndexError ''index out of bounds''))"

text \<open>\<^verbatim>\<open>values[-k]\<close> for \<^verbatim>\<open>k\<close> at least one: the \<^verbatim>\<open>k\<close>-th value from the end.\<close>

definition from_end :: "rat list \<Rightarrow> nat \<Rightarrow> error + rat" where
  "from_end vs k =
     (if 0 < k \<and> k \<le> length vs then Inr (vs ! (length vs - k))
      else Inl (IndexError ''index out of bounds''))"

text \<open>
  Modelled from the spec: \<^verbatim>\<open>Index.regular\<close> (\<^verbatim>\<open>gwpy/types/index.py\<close> is not part of the
  sources at hand). The regular flag is true iff consecutive differences are constant;
  a sequence too short to have two differences is regular by this wording.
\<close>

definition diffs :: "rat list \<Rightarrow> rat list" where
  "diffs vs = map (\<lambda>(b, a). b - a) (zip (tl vs) vs)"

definition regular :: "index \<Rightarrow> bool" where
  "regular idx = (let d = diffs (ivalue idx) in list_all (\<lambda>x. x = hd d) d)"

text \<open>
  The wrapping of a setter's argument that is not an \<^verbatim>\<open>Index\<close> yet: the unit is the
  argument's own \<^verbatim>\<open>unit\<close> attribute, or the given default when it has none.
\<close>

definition as_index :: "unit \<Rightarrow> array_like \<Rightarrow> index" where
  "as_index u a = (case a of Tagged i \<Rightarrow> i | Plain vs \<Rightarrow> \<lparr>ivalue = vs, iunit = u\<rparr>)"

subsection \<open>The objects\<close>

text \<open>
  \<^verbatim>\<open>class Array2D(Series)\<close>: the x-axis slots belong to the one-dimensional parent, the
  y-axis slots, the second extent, the buffer and its unit are added here.
  \<^verbatim>\<open>xsize\<close> is \<^verbatim>\<open>shape[0]\<close> and \<^verbatim>\<open>ysize\<close> is \<^verbatim>\<open>shape[1]\<close>.
\<close>

record series =
  xsize :: nat
  x0_attr :: "quantity option"
  dx_attr :: "quantity option"
  xindex_attr :: "index option"

record array2d = series +
  ysize :: nat
  y0_attr :: "quantity option"
  dy_attr :: "quantity option"
  yindex_attr :: "index option"
  data :: "nat \<Rightarrow> nat \<Rightarrow> rat"
  unit_attr :: unit

definition default_xunit :: unit where
  "default_xunit = dimensionless"

definition default_yunit :: unit where
  "default_yunit = dimensionless"

subsection \<open>The y-axis properties\<close>

definition y0_deleter :: "array2d \<Rightarrow> array2d" where
  "y0_deleter self = self\<lparr>y0_attr := None\<rparr>"

definition dy_deleter :: "array2d \<Rightarrow> array2d" where
  "dy_deleter self = self\<lparr>dy_attr := None\<rparr>"

definition yindex_deleter :: "array2d \<Rightarrow> array2d" where
  "yindex_deleter self = self\<lparr>yindex_attr := None\<rparr>"

definition yunit :: "array2d \<Rightarrow> unit" where
  "yunit self =
     (case dy_attr self of
        Some d \<Rightarrow> qunit d
      | None \<Rightarrow> (case y0_attr self of Some v \<Rightarrow> qunit v | None \<Rightarrow> default_yunit))"

definition y0_getter :: "array2d \<Rightarrow> quantity \<times> array2d" where
  "y0_getter self =
     (case y0_attr self of
        Some v \<Rightarrow> (v, self)
      | None \<Rightarrow>
          (let v = \<lparr>qvalue = 0, qunit = yunit self\<rparr>
           in (v, self\<lparr>y0_attr := Some v\<rparr>)))"

definition y0_setter :: "pyval \<Rightarrow> array2d \<Rightarrow> array2d" where
  "y0_setter val self =
     (case val of
        PyNone \<Rightarrow> y0_deleter self
      | _ \<Rightarrow>
          (let v = tagged_value val (yunit self);
               self1 = (case y0_attr self of
                          None \<Rightarrow> yindex_deleter self
                        | Some y0 \<Rightarrow> if q_ne v y0 then yindex_deleter self else self)
           in self1\<lparr>y0_attr := Some v\<rparr>))"

definition dy_getter :: "array2d \<Rightarrow> error + quantity \<times> array2d" where
  "dy_getter self =
     (case dy_attr self of
        Some d \<Rightarrow> Inr (d, self)
      | None \<Rightarrow>
          (case yindex_attr self of
             None \<Rightarrow>
               (let d = \<lparr>qvalue = 1, qunit = yunit self\<rparr>
                in Inr (d, self\<lparr>dy_attr := Some d\<rparr>))
           | Some idx \<Rightarrow>
               if \<not> regular idx then
                 Inl (AttributeError
                   (''This series has an irregular y-axis '' @
                    ''index, so 'dy' is not well defined''))
               else
                 bind_err (index_getitem idx 1) (\<lambda>i1.
                 bind_err (index_getitem idx 0) (\<lambda>i0.
                 bind_err (q_sub i1 i0) (\<lambda>d.
                 Inr (d, self\<lparr>dy_attr := Some d\<rparr>))))))"

definition dy_setter :: "pyval \<Rightarrow> array2d \<Rightarrow> error + array2d" where
  "dy_setter val self =
     (case val of
        PyNone \<Rightarrow> Inr (dy_deleter self)
      | _ \<Rightarrow>
          bind_err
            (case val of
               Quant q \<Rightarrow> Inr q
             | Bare b \<Rightarrow> q_to \<lparr>qvalue = b, qunit = dimensionless\<rparr> (yunit self))
            (\<lambda>v.
               let self1 = (case dy_attr self of
                              None \<Rightarrow> yindex_deleter self
                            | Some dy \<Rightarrow> if q_ne v dy then yindex_deleter self else self)
               in Inr (self1\<lparr>dy_attr := Some v\<rparr>)))"

definition yindex_getter :: "array2d \<Rightarrow> error + index \<times> array2d" where
  "yindex_getter self =
     (case yindex_attr self of
        Some idx \<Rightarrow> Inr (idx, self)
      | None \<Rightarrow>
          (case y0_getter self of (y0, self1) \<Rightarrow>
             bind_err (dy_getter self1) (\<lambda>(dy, self2).
             bind_err (q_add_array y0 (arange_times (ysize self2) dy)) (\<lambda>idx.
             Inr (idx, self2\<lparr>yindex_attr := Some idx\<rparr>)))))"

definition yindex_setter :: "array_like option \<Rightarrow> array2d \<Rightarrow> error + array2d" where
  "yindex_setter arg self =
     (case arg of
        None \<Rightarrow> Inr (yindex_deleter self)
      | Some a \<Rightarrow>
          (let idx = as_index default_yunit a
           in bind_err (index_getitem idx 0) (\<lambda>first.
              bind_err
                (if regular idx then
                   bind_err (index_getitem idx 1) (\<lambda>i1.
                   bind_err (index_getitem idx 0) (\<lambda>i0.
                   bind_err (q_sub i1 i0) (\<lambda>d.
                   dy_setter (Quant d) (y0_setter (Quant first) self))))
                 else Inr (dy_deleter (y0_setter (Quant first) self)))
                (\<lambda>self2. Inr (self2\<lparr>yindex_attr := Some idx\<rparr>)))))"

text \<open>
  Modelled from the spec: the \<^verbatim>\<open>Segment\<close> of \<^verbatim>\<open>gwpy.segments\<close> (not part of the sources at
  hand), the half-open interval from its lower to its upper bound. The segment type keeps
  its two bounds in order, whichever way round they are given.
\<close>

type_synonym segment = "rat \<times> rat"

definition Segment :: "rat \<Rightarrow> rat \<Rightarrow> segment" where
  "Segment a b = (if a \<le> b then (a, b) else (b, a))"

text \<open>
  \<^verbatim>\<open>Array2D.yspan\<close>. With a cached index the local \<^verbatim>\<open>dy\<close>, the difference of the last two
  values, is computed and not used: the upper bound adds \<^verbatim>\<open>self.dy.value\<close>.
\<close>

definition yspan :: "array2d \<Rightarrow> error + segment" where
  "yspan self =
     (case yindex_attr self of
        None \<Rightarrow>
          (case y0_getter self of (y0q, self1) \<Rightarrow>
             bind_err (q_to y0q (yunit self1)) (\<lambda>y0c.
             bind_err (dy_getter self1) (\<lambda>(dyq, self2).
             bind_err (q_to dyq (yunit self2)) (\<lambda>dyc.
             Inr (Segment (qvalue y0c) (qvalue y0c + of_nat (ysize self2) * qvalue dyc))))))
      | Some idx \<Rightarrow>
          bind_err (from_end (ivalue idx) 1) (\<lambda>l1.
          bind_err (from_end (ivalue idx) 2) (\<lambda>l2.
          let dy = l1 - l2 in
          bind_err (index_getitem idx 0) (\<lambda>first.
          bind_err (from_end (ivalue idx) 1) (\<lambda>lst.
          bind_err (dy_getter self) (\<lambda>(dyq, self1).
          Inr (Segment (qvalue first) (lst + qvalue dyq))))))))"

subsection \<open>Construction\<close>

text \<open>
  \<^verbatim>\<open>Array2D.__new__\<close>: \<open>new\<close> is the object the parent constructor has built from the
  data and the x-axis arguments; the y-axis arguments are applied in the order step,
  origin, index.
\<close>

definition new_array2d ::
  "array2d \<Rightarrow> pyval \<Rightarrow> pyval \<Rightarrow> array_like option \<Rightarrow> error + array2d" where
  "new_array2d new y0 dy yindex =
     (let yu = (case dy of
                  Quant q \<Rightarrow> qunit q
                | _ \<Rightarrow> (case y0 of Quant q \<Rightarrow> qunit q | _ \<Rightarrow> default_yunit))
      in bind_err
           (if dy \<noteq> PyNone
            then bind_err (Quantity dy yu) (\<lambda>q. dy_setter (Quant q) new)
            else Inr new) (\<lambda>new1.
         bind_err
           (if y0 \<noteq> PyNone
            then bind_err (Quantity y0 yu) (\<lambda>q. Inr (y0_setter (Quant q) new1))
            else Inr new1) (\<lambda>new2.
         if yindex \<noteq> None then yindex_setter yindex new2 else Inr new2)))"

subsection \<open>The x-axis properties of the parent class\<close>

text \<open>
  Modelled from the spec: the x-axis properties \<^verbatim>\<open>x0\<close>, \<^verbatim>\<open>dx\<close>, \<^verbatim>\<open>xunit\<close> and
  \<^verbatim>\<open>xindex\<close> of \<^verbatim>\<open>Series\<close> (\<^verbatim>\<open>gwpy/types/series.py\<close> is not part of the sources at
  hand). The axis descriptor is symmetric for the row and the column axis, so each
  x-axis property behaves as its y-axis counterpart above, on the x-axis slots and the
  extent \<^verbatim>\<open>shape[0]\<close>; the step setter is symmetric to the origin setter, so it takes a
  bare number as a value in the current unit of the axis.
\<close>

definition x0_deleter :: "'a series_scheme \<Rightarrow> 'a series_scheme" where
  "x0_deleter self = self\<lparr>x0_attr := None\<rparr>"

definition dx_deleter :: "'a series_scheme \<Rightarrow> 'a series_scheme" where
  "dx_deleter self = self\<lparr>dx_attr := None\<rparr>"

definition xindex_deleter :: "'a series_scheme \<Rightarrow> 'a series_scheme" where
  "xindex_deleter self = self\<lparr>xindex_attr := None\<rparr>"

definition xunit :: "'a series_scheme \<Rightarrow> unit" where
  "xunit self =
     (case dx_attr self of
        Some d \<Rightarrow> qunit d
      | None \<Rightarrow> (case x0_attr self of Some v \<Rightarrow> qunit v | None \<Rightarrow> default_xunit))"

definition x0_getter :: "'a series_scheme \<Rightarrow> quantity \<times> 'a series_scheme" where
  "x0_getter self =
     (case x0_attr self of
        Some v \<Rightarrow> (v, self)
      | None \<Rightarrow>
          (let v = \<lparr>qvalue = 0, qunit = xunit self\<rparr>
           in (v, self\<lparr>x0_attr := Some v\<rparr>)))"

definition x0_setter :: "pyval \<Rightarrow> 'a series_scheme \<Rightarrow> 'a series_scheme" where
  "x0_setter val self =
     (case val of
        PyNone \<Rightarrow> x0_deleter self
      | _ \<Rightarrow>
          (let v = tagged_value val (xunit self);
               self1 = (case x0_attr self of
                          None \<Rightarrow> xindex_deleter self
                        | Some x0 \<Rightarrow> if q_ne v x0 then xindex_deleter self else self)
           in self1\<lparr>x0_attr := Some v\<rparr>))"

definition dx_getter :: "'a series_scheme \<Rightarrow> error + quantity \<times> 'a series_scheme" where
  "dx_getter self =
     (case dx_attr self of
        Some d \<Rightarrow> Inr (d, self)
      | None \<Rightarrow>
          (case xindex_attr self of
             None \<Rightarrow>
               (let d = \<lparr>qvalue = 1, qunit = xunit self\<rparr>
                in Inr (d, self\<lparr>dx_attr := Some d\<rparr>))
           | Some idx \<Rightarrow>
               if \<not> regular idx then
                 Inl (AttributeError
                   (''This series has an irregular x-axis '' @
                    ''index, so 'dx' is not well defined''))
               else
                 bind_err (index_getitem idx 1) (\<lambda>i1.
                 bind_err (index_getitem idx 0) (\<lambda>i0.
                 bind_err (q_sub i1 i0) (\<lambda>d.
                 Inr (d, self\<lparr>dx_attr := Some d\<rparr>))))))"

definition dx_setter :: "pyval \<Rightarrow> 'a series_scheme \<Rightarrow> error + 'a series_scheme" where
  "dx_setter val self =
     (case val of
        PyNone \<Rightarrow> Inr (dx_deleter self)
      | _ \<Rightarrow>
          (let v = tagged_value val (xunit self);
               self1 = (case dx_attr self of
                          None \<Rightarrow> xindex_deleter self
                        | Some dx \<Rightarrow> if q_ne v dx then xindex_deleter self else self)
           in Inr (self1\<lparr>dx_attr := Some v\<rparr>)))"

definition xindex_getter :: "'a series_scheme \<Rightarrow> error + index \<times> 'a series_scheme" where
  "xindex_getter self =
     (case xindex_attr self of
        Some idx \<Rightarrow> Inr (idx, self)
      | None \<Rightarrow>
          (case x0_getter self of (x0, self1) \<Rightarrow>
             bind_err (dx_getter self1) (\<lambda>(dx, self2).
             bind_err (q_add_array x0 (arange_times (xsize self2) dx)) (\<lambda>idx.
             Inr (idx, self2\<lparr>xindex_attr := Some idx\<rparr>)))))"

definition xindex_setter ::
  "array_like option \<Rightarrow> 'a series_scheme \<Rightarrow> error + 'a series_scheme" where
  "xindex_setter arg self =
     (case arg of
        None \<Rightarrow> Inr (xindex_deleter self)
      | Some a \<Rightarrow>
          (let idx = as_index default_xunit a
           in bind_err (index_getitem idx 0) (\<lambda>first.
              bind_err
                (if regular idx then
                   bind_err (index_getitem idx 1) (\<lambda>i1.
                   bind_err (index_getitem idx 0) (\<lambda>i0.
                   bind_err (q_sub i1 i0) (\<lambda>d.
                   dx_setter (Quant d) (x0_setter (Quant first) self))))
                 else Inr (dx_deleter (x0_setter (Quant first) self)))
                (\<lambda>self2. Inr (self2\<lparr>xindex_attr := Some idx\<rparr>)))))"

subsection \<open>Index expressions and slices\<close>

text \<open>
  One component of an index expression: a Python \<^verbatim>\<open>int\<close>, a Python \<^verbatim>\<open>float\<close>, an
  integer scalar of another type (a NumPy integer that does not derive from \<^verbatim>\<open>int\<close>),
  or a \<^verbatim>\<open>slice(start, stop, step)\<close>.
\<close>

datatype index_component =
    PyInt int
  | PyFloat rat
  | OtherInt int
  | Slice (sl_start: "int option") (sl_stop: "int option") (sl_step: "int option")

text \<open>An index expression is one component or a 2-tuple of components.\<close>

datatype item = Item index_component | Tuple index_component index_component

text \<open>
  The unwrapping of the request: \<^verbatim>\<open>x, y = item\<close> for a tuple, else \<^verbatim>\<open>x = item\<close> and
  \<^verbatim>\<open>y = None\<close>.
\<close>

fun row_component :: "item \<Rightarrow> index_component" where
  "row_component (Tuple a b) = a"
| "row_component (Item a) = a"

fun column_component :: "item \<Rightarrow> index_component option" where
  "column_component (Tuple a b) = Some b"
| "column_component (Item a) = None"

text \<open>\<^verbatim>\<open>isinstance(x, (float, int))\<close>\<close>

fun is_float_or_int :: "index_component \<Rightarrow> bool" where
  "is_float_or_int (PyInt i) = True"
| "is_float_or_int (PyFloat f) = True"
| "is_float_or_int (OtherInt i) = False"
| "is_float_or_int (Slice a b c) = False"

text \<open>\<^verbatim>\<open>isinstance(y, slice)\<close>, for the second component (\<^verbatim>\<open>None\<close> when there is none).\<close>

fun is_slice :: "index_component option \<Rightarrow> bool" where
  "is_slice (Some (Slice a b c)) = True"
| "is_slice other = False"

text \<open>The truth value of \<^verbatim>\<open>y.start\<close> and \<^verbatim>\<open>y.step\<close>: \<^verbatim>\<open>None\<close> and zero are false.\<close>

fun truthy :: "int option \<Rightarrow> bool" where
  "truthy None = False"
| "truthy (Some k) = (k \<noteq> 0)"

text \<open>
  Python's resolution of a slice against a length (\<^verbatim>\<open>slice.indices\<close>) and the
  positions it selects (\<^verbatim>\<open>range(start, stop, step)\<close>).
\<close>

definition slice_indices ::
  "int option \<Rightarrow> int option \<Rightarrow> int option \<Rightarrow> nat \<Rightarrow> error + int \<times> int \<times> int" where
  "slice_indices a b c len =
     (let st = (case c of None \<Rightarrow> 1 | Some s \<Rightarrow> s) in
      if st = 0 then Inl (ValueError ''slice step cannot be zero'')
      else
        let n = int len;
            lower = (if st < 0 then - 1 else 0);
            upper = (if st < 0 then n - 1 else n);
            clip = (\<lambda>s. if s < 0 then max (s + n) lower else min s upper);
            lo = (case a of None \<Rightarrow> (if st < 0 then upper else lower) | Some s \<Rightarrow> clip s);
            hi = (case b of None \<Rightarrow> (if st < 0 then lower else upper) | Some s \<Rightarrow> clip s)
        in Inr (lo, hi, st))"

definition py_range :: "int \<Rightarrow> int \<Rightarrow> int \<Rightarrow> int list" where
  "py_range lo hi st =
     (let count = (if 0 < st then (if lo < hi then (hi - lo - 1) div st + 1 else 0)
                   else (if hi < lo then (lo - hi - 1) div (- st) + 1 else 0))
      in map (\<lambda>k. lo + int k * st) [0..<nat count])"

text \<open>\<^verbatim>\<open>index[y]\<close> for a slice \<^verbatim>\<open>y\<close>: the selected values, in the same unit.\<close>

definition index_slice ::
  "index \<Rightarrow> int option \<Rightarrow> int option \<Rightarrow> int option \<Rightarrow> error + index" where
  "index_slice idx a b c =
     bind_err (slice_indices a b c (length (ivalue idx))) (\<lambda>(lo, hi, st).
     Inr \<lparr>ivalue = map (\<lambda>i. ivalue idx ! nat i) (py_range lo hi st), iunit = iunit idx\<rparr>)"

subsection \<open>Slicing\<close>

text \<open>
  What \<^verbatim>\<open>super(Array2D, self).__getitem__(item)\<close> returns: a bare element, or a view of
  rank one or two that carries the metadata slots the parent class has copied and
  x-sliced. A view of rank one is only ever read through its x-axis slots.
\<close>

datatype super_result = Rank0 rat | Rank1 series | Rank2 array2d

text \<open>\<^verbatim>\<open>_rowclass\<close> and \<^verbatim>\<open>_columnclass\<close>, the classes a one-dimensional result is viewed as.\<close>

datatype series_class = RowClass | ColumnClass

datatype getitem_result =
    Scalar quantity
  | Vector series_class series
  | Matrix array2d

text \<open>
  \<^verbatim>\<open>Array2D.__getitem__\<close>, with the parent's result \<open>new\<close> as an argument. The getters
  called on \<open>self\<close> cache their defaults, so \<open>self\<close> is threaded through.
\<close>

text \<open>
  The branch \<^verbatim>\<open>if len(new.shape) == 1\<close>: the view as the column class with the step and
  the origin of the y-axis assigned to the vector's \<^verbatim>\<open>dx\<close> and \<^verbatim>\<open>x0\<close>, or the plain view
  as the row class.
\<close>

definition unwrap_series ::
  "array2d \<Rightarrow> index_component \<Rightarrow> series \<Rightarrow> error + (series_class \<times> series) \<times> array2d" where
  "unwrap_series self x new =
     (if is_float_or_int x then
        bind_err (dy_getter self) (\<lambda>(dy, self1).
        bind_err (dx_setter (Quant dy) new) (\<lambda>new1.
        case y0_getter self1 of (y0, self2) \<Rightarrow>
          Inr ((ColumnClass, x0_setter (Quant y0) new1), self2)))
      else Inr ((RowClass, new), self))"

text \<open>
  The update under \<^verbatim>\<open>if len(new.shape) == 1 and isinstance(y, slice)\<close>, as written: the
  test is on \<^verbatim>\<open>self._xindex\<close>, and the values read are \<^verbatim>\<open>self.x0\<close>, \<^verbatim>\<open>self.dx\<close> and
  \<^verbatim>\<open>self.xindex[y]\<close>.
\<close>

definition update_series ::
  "array2d \<Rightarrow> index_component option \<Rightarrow> series \<Rightarrow> error + series" where
  "update_series self y new =
     (case y of
        Some (Slice a b c) \<Rightarrow>
          (case xindex_attr self of
             None \<Rightarrow>
               bind_err
                 (if truthy a then
                    (case x0_getter self of (x0, self1) \<Rightarrow>
                       bind_err (dx_getter self1) (\<lambda>(dx, self2).
                       bind_err (q_add x0 (q_scale (of_int (the a)) dx)) (\<lambda>v.
                       Inr (x0_setter (Quant v) new, self2))))
                  else Inr (new, self)) (\<lambda>(new1, self3).
               if truthy c then
                 bind_err (dx_getter self3) (\<lambda>(dx, self4).
                 dx_setter (Quant (q_scale (of_int (the c)) dx)) new1)
               else Inr new1)
           | Some cached \<Rightarrow>
               bind_err (xindex_getter self) (\<lambda>(idx, self1).
               bind_err (index_slice idx a b c) (\<lambda>sliced.
               xindex_setter (Some (Tagged sliced)) new)))
      | _ \<Rightarrow> Inr new)"

text \<open>
  The update under \<^verbatim>\<open>elif isinstance(y, slice)\<close>, for a result of rank two: the test is on
  \<^verbatim>\<open>self._yindex\<close>, origin and step are read from and written to \<^verbatim>\<open>new\<close>.
\<close>

definition update_array2d ::
  "array2d \<Rightarrow> index_component option \<Rightarrow> array2d \<Rightarrow> error + array2d" where
  "update_array2d self y new =
     (case y of
        Some (Slice a b c) \<Rightarrow>
          (case yindex_attr self of
             None \<Rightarrow>
               bind_err
                 (if truthy a then
                    (case y0_getter new of (y0, new1) \<Rightarrow>
                       bind_err (dy_getter new1) (\<lambda>(dy, new2).
                       bind_err (q_add y0 (q_scale (of_int (the a)) dy)) (\<lambda>v.
                       Inr (y0_setter (Quant v) new2))))
                  else Inr new) (\<lambda>new3.
               if truthy c then
                 bind_err (dy_getter new3) (\<lambda>(dy, new4).
                 dy_setter (Quant (q_scale (of_int (the c)) dy)) new4)
               else Inr new3)
           | Some cached \<Rightarrow>
               bind_err (yindex_getter self) (\<lambda>(idx, self1).
               bind_err (index_slice idx a b c) (\<lambda>sliced.
               yindex_setter (Some (Tagged sliced)) new)))
      | _ \<Rightarrow> Inr new)"

text \<open>The whole of \<^verbatim>\<open>__getitem__\<close>: a quantity, a vector or an array.\<close>

definition getitem :: "array2d \<Rightarrow> item \<Rightarrow> super_result \<Rightarrow> error + getitem_result" where
  "getitem self it new =
     (let x = row_component it;
          y = column_component it
      in case new of
           Rank0 v \<Rightarrow> Inr (Scalar \<lparr>qvalue = v, qunit = unit_attr self\<rparr>)
         | Rank1 s \<Rightarrow>
             bind_err (unwrap_series self x s) (\<lambda>((cls, new1), self1).
             bind_err (update_series self1 y new1) (\<lambda>new2.
             Inr (Vector cls new2)))
         | Rank2 m \<Rightarrow>
             bind_err (update_array2d self y m) (\<lambda>new1. Inr (Matrix new1)))"

subsection \<open>Coordinate lookup\<close>

text \<open>\<^verbatim>\<open>(values == v).nonzero()[0][0]\<close>: the first position holding \<^verbatim>\<open>v\<close>, if any.\<close>

fun first_match :: "rat list \<Rightarrow> rat \<Rightarrow> nat option" where
  "first_match [] v = None"
| "first_match (w # ws) v =
     (if w = v then Some 0 else map_option Suc (first_match ws v))"

text \<open>
  Modelled from the spec: the element read of the numeric buffer through the parent
  class (\<^verbatim>\<open>gwpy/types/series.py\<close> and the array storage are not part of the sources at
  hand). Both components are single positions; a position out of bounds surfaces the
  buffer's out-of-bounds error unchanged.
\<close>

definition buffer_element :: "array2d \<Rightarrow> nat \<Rightarrow> nat \<Rightarrow> error + super_result" where
  "buffer_element self i j =
     (if i < xsize self \<and> j < ysize self then Inr (Rank0 (data self i j))
      else Inl (IndexError ''index out of bounds''))"

text \<open>
  \<^verbatim>\<open>Array2D.value_at\<close>: both coordinates are converted first, then the x-axis index is
  searched, then the y-axis index; each miss raises with its own fixed message.
\<close>

definition value_at :: "array2d \<Rightarrow> pyval \<Rightarrow> pyval \<Rightarrow> error + getitem_result" where
  "value_at self x y =
     bind_err (xindex_getter self) (\<lambda>(xi, self1).
     bind_err (Quantity x (iunit xi)) (\<lambda>xq.
     bind_err (yindex_getter self1) (\<lambda>(yi, self2).
     bind_err (Quantity y (iunit yi)) (\<lambda>yq.
     case first_match (ivalue xi) (qvalue xq) of
       None \<Rightarrow> Inl (IndexError ''Value %r not found in array xindex'')
     | Some idx \<Rightarrow>
         (case first_match (ivalue yi) (qvalue yq) of
            None \<Rightarrow> Inl (IndexError ''Value %r not found in array yindex'')
          | Some idy \<Rightarrow>
              bind_err (buffer_element self2 idx idy) (\<lambda>new.
              getitem self2 (Tuple (OtherInt (int idx)) (OtherInt (int idy))) new))))))"

section \<open>Example objects\<close>

text \<open>A 2 x 3 array with no axis metadata set: both axes in their default state.\<close>

definition blank_2x3 :: array2d where
  "blank_2x3 =
     \<lparr>xsize = 2, x0_attr = None, dx_attr = None, xindex_attr = None,
      ysize = 3, y0_attr = None, dy_attr = None, yindex_attr = None,
      data = (\<lambda>i j. 0), unit_attr = dimensionless\<rparr>"

text \<open>
  A 2 x 3 array whose y-axis is regular with origin 0 and step 1 and has its index
  materialised and cached.
\<close>

definition cached_2x3 :: array2d where
  "cached_2x3 =
     \<lparr>xsize = 2, x0_attr = None, dx_attr = None, xindex_attr = None,
      ysize = 3, y0_attr = Some \<lparr>qvalue = 0, qunit = dimensionless\<rparr>,
      dy_attr = Some \<lparr>qvalue = 1, qunit = dimensionless\<rparr>,
      yindex_attr = Some \<lparr>ivalue = [0, 1, 2], iunit = dimensionless\<rparr>,
      data = (\<lambda>i j. 0), unit_attr = dimensionless\<rparr>"

text \<open>
  A 2 x 3 array whose y-axis is regular with origin 10 and step 5, the index not yet
  materialised.
\<close>

definition regular_2x3 :: array2d where
  "regular_2x3 =
     \<lparr>xsize = 2, x0_attr = None, dx_attr = None, xindex_attr = None,
      ysize = 3, y0_attr = Some \<lparr>qvalue = 10, qunit = dimensionless\<rparr>,
      dy_attr = Some \<lparr>qvalue = 5, qunit = dimensionless\<rparr>,
      yindex_attr = None,
      data = (\<lambda>i j. 0), unit_attr = dimensionless\<rparr>"

text \<open>A 2 x 1 array: a single column, the y-axis regular with origin 0 and step 2.\<close>

definition single_column :: array2d where
  "single_column =
     \<lparr>xsize = 2, x0_attr = None, dx_attr = None, xindex_attr = None,
      ysize = 1, y0_attr = Some \<lparr>qvalue = 0, qunit = dimensionless\<rparr>,
      dy_attr = Some \<lparr>qvalue = 2, qunit = dimensionless\<rparr>,
      yindex_attr = None,
      data = (\<lambda>i j. 0), unit_attr = dimensionless\<rparr>"

text \<open>The 2 x 3 array after the irregular index 0, 1, 3 has been set on its y-axis.\<close>

definition irregular_2x3 :: array2d where
  "irregular_2x3 =
     \<lparr>xsize = 2, x0_attr = None, dx_attr = None, xindex_attr = None,
      ysize = 3, y0_attr = Some \<lparr>qvalue = 0, qunit = dimensionless\<rparr>,
      dy_attr = None,
      yindex_attr = Some \<lparr>ivalue = [0, 1, 3], iunit = dimensionless\<rparr>,
      data = (\<lambda>i j. 0), unit_attr = dimensionless\<rparr>"

text \<open>A 2 x 3 array built with a step of 1 Hz on the y-axis and nothing else.\<close>

definition hertz_2x3 :: array2d where
  "hertz_2x3 =
     \<lparr>xsize = 2, x0_attr = None, dx_attr = None, xindex_attr = None,
      ysize = 3, y0_attr = None,
      dy_attr = Some \<lparr>qvalue = 1, qunit = Unit ''Hz'' 1\<rparr>,
      yindex_attr = None,
      data = (\<lambda>i j. 0), unit_attr = dimensionless\<rparr>"

text \<open>
  A 5 x 4 array on a regular grid: rows at 0, 1, ..., 4 and columns at 10, 15, 20, 25;
  the element in row \<open>i\<close> and column \<open>j\<close> is \<open>10 i + j\<close>.
\<close>

definition grid_5x4 :: array2d where
  "grid_5x4 =
     \<lparr>xsize = 5, x0_attr = Some \<lparr>qvalue = 0, qunit = dimensionless\<rparr>,
      dx_attr = Some \<lparr>qvalue = 1, qunit = dimensionless\<rparr>, xindex_attr = None,
      ysize = 4, y0_attr = Some \<lparr>qvalue = 10, qunit = dimensionless\<rparr>,
      dy_attr = Some \<lparr>qvalue = 5, qunit = dimensionless\<rparr>,
      yindex_attr = None,
      data = (\<lambda>i j. of_nat (10 * i + j)), unit_attr = dimensionless\<rparr>"

text \<open>
  A 10 x 10 array on a regular grid: row origin 0 and row step 2, column origin 10 and
  column step 5, no index materialised; and the same array with its row index cached.
\<close>

definition ten_by_ten :: array2d where
  "ten_by_ten =
     \<lparr>xsize = 10, x0_attr = Some \<lparr>qvalue = 0, qunit = dimensionless\<rparr>,
      dx_attr = Some \<lparr>qvalue = 2, qunit = dimensionless\<rparr>, xindex_attr = None,
      ysize = 10, y0_attr = Some \<lparr>qvalue = 10, qunit = dimensionless\<rparr>,
      dy_attr = Some \<lparr>qvalue = 5, qunit = dimensionless\<rparr>,
      yindex_attr = None,
      data = (\<lambda>i j. 0), unit_attr = dimensionless\<rparr>"

definition ten_by_ten_row_index :: array2d where
  "ten_by_ten_row_index =
     ten_by_ten\<lparr>xindex_attr :=
       Some \<lparr>ivalue = [0, 2, 4, 6, 8, 10, 12, 14, 16, 18], iunit = dimensionless\<rparr>\<rparr>"

text \<open>
  A 2 x 3 array whose y-axis is in hertz, regular with origin 0 Hz and step 1 Hz, the
  index materialised and cached.
\<close>

definition cached_hertz_2x3 :: array2d where
  "cached_hertz_2x3 =
     \<lparr>xsize = 2, x0_attr = None, dx_attr = None, xindex_attr = None,
      ysize = 3, y0_attr = Some \<lparr>qvalue = 0, qunit = Unit ''Hz'' 1\<rparr>,
      dy_attr = Some \<lparr>qvalue = 1, qunit = Unit ''Hz'' 1\<rparr>,
      yindex_attr = Some \<lparr>ivalue = [0, 1, 2], iunit = Unit ''Hz'' 1\<rparr>,
      data = (\<lambda>i j. 0), unit_attr = dimensionless\<rparr>"

section \<open>Properties\<close>

subsection \<open>Auxiliary facts\<close>

lemma bind_err_Inl [simp]: "bind_err (Inl e) f = Inl e"
  by (simp add: bind_err_def)

lemma bind_err_Inr [simp]: "bind_err (Inr x) f = f x"
  by (simp add: bind_err_def)

lemma factor_same [simp]: "factor u u = Inr 1"
  by (simp add: factor_def)

lemma irregular_length: "\<not> regular idx \<Longrightarrow> 3 \<le> length (ivalue idx)"
proof (rule ccontr)
  assume irr: "\<not> regular idx" and "\<not> 3 \<le> length (ivalue idx)"
  then have "length (diffs (ivalue idx)) \<le> 1"
    by (simp add: diffs_def)
  then have "diffs (ivalue idx) = [] \<or> (\<exists>d. diffs (ivalue idx) = [d])"
    by (cases "diffs (ivalue idx)") auto
  then have "regular idx"
    by (auto simp add: regular_def)
  with irr show False by simp
qed

text \<open>
  Setting an irregular index stores its first element as the origin, clears the step
  and caches the index, whatever the slots held before.
\<close>

lemma yindex_setter_irregular:
  assumes "\<not> regular (as_index default_yunit a)"
  shows "yindex_setter (Some a) self =
    Inr (self\<lparr>y0_attr := Some \<lparr>qvalue = hd (ivalue (as_index default_yunit a)),
                                 qunit = iunit (as_index default_yunit a)\<rparr>,
               dy_attr := None,
               yindex_attr := Some (as_index default_yunit a)\<rparr>)"
proof -
  let ?idx = "as_index default_yunit a"
  from assms have "3 \<le> length (ivalue ?idx)"
    by (rule irregular_length)
  then have len: "0 < length (ivalue ?idx)"
    by linarith
  then have hd: "ivalue ?idx ! 0 = hd (ivalue ?idx)"
    by (simp add: hd_conv_nth)
  show ?thesis
    using assms len hd
    by (simp add: yindex_setter_def Let_def index_getitem_def y0_setter_def dy_deleter_def
        yindex_deleter_def tagged_value_def split: option.splits)
qed

subsection \<open>The step of an irregular axis\<close>

text \<open>
  C5: once an explicit irregular index has been set on the y-axis, reading the step
  \<^verbatim>\<open>dy\<close> fails with the error that names the y-axis index as irregular, while reading
  the origin \<^verbatim>\<open>y0\<close> succeeds and gives the first element of the index.
\<close>

theorem irregular_index_step_fails_origin_first:
  assumes "\<not> regular (as_index default_yunit a)"
  shows "\<exists>self'. yindex_setter (Some a) self = Inr self'
           \<and> dy_getter self' =
               Inl (AttributeError
                 ''This series has an irregular y-axis index, so 'dy' is not well defined'')
           \<and> index_getitem (as_index default_yunit a) 0 = Inr (fst (y0_getter self'))"
proof -
  let ?idx = "as_index default_yunit a"
  from assms have "3 \<le> length (ivalue ?idx)"
    by (rule irregular_length)
  then have len: "0 < length (ivalue ?idx)"
    by linarith
  then have hd: "ivalue ?idx ! 0 = hd (ivalue ?idx)"
    by (simp add: hd_conv_nth)
  show ?thesis
    using assms len hd
    by (simp add: yindex_setter_irregular dy_getter_def y0_getter_def index_getitem_def)
qed

theorem irregular_index_step_fails_origin_first_witness:
  "\<not> regular (as_index default_yunit (Plain [0, 1, 3]))
   \<and> (\<exists>self'. yindex_setter (Some (Plain [0, 1, 3])) blank_2x3 = Inr self'
         \<and> dy_getter self' =
             Inl (AttributeError
               ''This series has an irregular y-axis index, so 'dy' is not well defined'')
         \<and> index_getitem (as_index default_yunit (Plain [0, 1, 3])) 0
             = Inr (fst (y0_getter self')))"
proof -
  have h: "\<not> regular (as_index default_yunit (Plain [0, 1, 3]))"
    by (simp add: regular_def as_index_def diffs_def)
  show ?thesis
    using h irregular_index_step_fails_origin_first [OF h, of blank_2x3] by simp
qed

subsection \<open>Setting the origin\<close>

lemma y0_setter_changed:
  assumes "y0_attr self = Some cur" and "val \<noteq> PyNone"
    and "q_ne (tagged_value val (yunit self)) cur"
  shows "y0_setter val self =
           self\<lparr>yindex_attr := None, y0_attr := Some (tagged_value val (yunit self))\<rparr>"
  using assms by (cases val) (simp_all add: y0_setter_def yindex_deleter_def)

lemma y0_setter_unchanged:
  assumes "y0_attr self = Some cur" and "val \<noteq> PyNone"
    and "\<not> q_ne (tagged_value val (yunit self)) cur"
  shows "y0_setter val self = self\<lparr>y0_attr := Some (tagged_value val (yunit self))\<rparr>"
  using assms by (cases val) (simp_all add: y0_setter_def yindex_deleter_def)

lemma yindex_getter_regular:
  assumes "yindex_attr self = None" and "y0_attr self = Some v" and "dy_attr self = Some d"
    and "factor (qunit d) (qunit v) = Inr f"
  shows "yindex_getter self =
    Inr (\<lparr>ivalue = map (\<lambda>i. qvalue v + of_nat i * qvalue d * f) [0..<ysize self],
          iunit = qunit v\<rparr>,
         self\<lparr>yindex_attr :=
           Some \<lparr>ivalue = map (\<lambda>i. qvalue v + of_nat i * qvalue d * f) [0..<ysize self],
                 iunit = qunit v\<rparr>\<rparr>)"
  using assms
  by (simp add: yindex_getter_def y0_getter_def dy_getter_def q_add_array_def arange_times_def
      o_def)

lemma yindex_getter_default_step:
  assumes "yindex_attr self = None" and "y0_attr self = Some v" and "dy_attr self = None"
  shows "yindex_getter self =
    Inr (\<lparr>ivalue = map (\<lambda>i. qvalue v + of_nat i) [0..<ysize self], iunit = qunit v\<rparr>,
         self\<lparr>dy_attr := Some \<lparr>qvalue = 1, qunit = qunit v\<rparr>,
              yindex_attr :=
                Some \<lparr>ivalue = map (\<lambda>i. qvalue v + of_nat i) [0..<ysize self],
                      iunit = qunit v\<rparr>\<rparr>)"
  using assms
  by (simp add: yindex_getter_def y0_getter_def dy_getter_def q_add_array_def arange_times_def
      o_def yunit_def Let_def)

lemma y0_setter_no_origin:
  assumes "y0_attr self = None" and "val \<noteq> PyNone"
  shows "y0_setter val self =
           self\<lparr>yindex_attr := None, y0_attr := Some (tagged_value val (yunit self))\<rparr>"
  using assms by (cases val) (simp_all add: y0_setter_def yindex_deleter_def)

lemma yindex_getter_inconvertible:
  assumes "yindex_attr self = None" and "y0_attr self = Some v" and "dy_attr self = Some d"
    and "factor (qunit d) (qunit v) = Inl e"
  shows "yindex_getter self = Inl e"
  using assms
  by (simp add: yindex_getter_def y0_getter_def dy_getter_def q_add_array_def arange_times_def)

text \<open>
  C7, as the code has it: on a y-axis with a cached index, setting the origin drops the
  cached index when the origin slot is empty (the origin has been cleared since) or holds
  a value that differs from the new one; the next read of the index is then computed from
  the new origin, element \<open>i\<close> being the new origin plus \<open>i\<close> steps, and fails with the
  unit conversion error when the step does not convert to the unit of the new origin.
  Setting the origin to a value equal to the one in the origin slot leaves the cached
  index in place.
\<close>

theorem origin_change_invalidates_index:
  assumes "yindex_attr self = Some cached" and "val \<noteq> PyNone"
    and "v = tagged_value val (yunit self)"
    and "d = (case dy_attr self of Some s \<Rightarrow> s | None \<Rightarrow> \<lparr>qvalue = 1, qunit = qunit v\<rparr>)"
  shows "((y0_attr self = None \<or> (\<exists>cur. y0_attr self = Some cur \<and> q_ne v cur)) \<longrightarrow>
            yindex_attr (y0_setter val self) = None
            \<and> (\<forall>f. factor (qunit d) (qunit v) = Inr f \<longrightarrow>
                 (\<exists>self'. yindex_getter (y0_setter val self) =
                    Inr (\<lparr>ivalue = map (\<lambda>i. qvalue v + of_nat i * qvalue d * f)
                                      [0..<ysize self],
                          iunit = qunit v\<rparr>, self')))
            \<and> (\<forall>e. factor (qunit d) (qunit v) = Inl e \<longrightarrow>
                 yindex_getter (y0_setter val self) = Inl e))
         \<and> ((\<exists>cur. y0_attr self = Some cur \<and> \<not> q_ne v cur) \<longrightarrow>
              yindex_attr (y0_setter val self) = Some cached
              \<and> yindex_getter (y0_setter val self) = Inr (cached, y0_setter val self))"
proof (intro conjI impI allI)
  assume drop: "y0_attr self = None \<or> (\<exists>cur. y0_attr self = Some cur \<and> q_ne v cur)"
  have set: "y0_setter val self = self\<lparr>yindex_attr := None, y0_attr := Some v\<rparr>"
  proof (cases "y0_attr self")
    case None
    with assms(2,3) show ?thesis
      by (simp add: y0_setter_no_origin)
  next
    case (Some cur)
    with drop have "q_ne v cur" by simp
    with Some assms(2,3) show ?thesis
      by (simp add: y0_setter_changed)
  qed
  then show "yindex_attr (y0_setter val self) = None"
    by simp
  {
    fix f
    assume f: "factor (qunit d) (qunit v) = Inr f"
    show "\<exists>self'. yindex_getter (y0_setter val self) =
          Inr (\<lparr>ivalue = map (\<lambda>i. qvalue v + of_nat i * qvalue d * f) [0..<ysize self],
                iunit = qunit v\<rparr>, self')"
    proof (cases "dy_attr self")
      case None
      with assms(4) f have "f = 1" and "qvalue d = 1"
        by simp_all
      with None show ?thesis
        by (simp add: set yindex_getter_default_step)
    next
      case (Some s)
      with assms(4) have "d = s" by simp
      with Some f show ?thesis
        by (simp add: set yindex_getter_regular)
    qed
  next
    fix e
    assume e: "factor (qunit d) (qunit v) = Inl e"
    show "yindex_getter (y0_setter val self) = Inl e"
    proof (cases "dy_attr self")
      case None
      with assms(4) e show ?thesis
        by simp
    next
      case (Some s)
      with assms(4) have "d = s" by simp
      with Some e show ?thesis
        by (simp add: set yindex_getter_inconvertible)
    qed
  }
next
  assume "\<exists>cur. y0_attr self = Some cur \<and> \<not> q_ne v cur"
  then obtain cur where cur: "y0_attr self = Some cur" and eq: "\<not> q_ne v cur"
    by blast
  with assms(2,3) have set: "y0_setter val self = self\<lparr>y0_attr := Some v\<rparr>"
    by (simp add: y0_setter_unchanged)
  with assms(1) show "yindex_attr (y0_setter val self) = Some cached"
    by simp
  from set assms(1) show "yindex_getter (y0_setter val self) = Inr (cached, y0_setter val self)"
    by (simp add: yindex_getter_def)
qed

theorem origin_change_invalidates_index_witness:
  "yindex_attr cached_2x3 = Some \<lparr>ivalue = [0, 1, 2], iunit = dimensionless\<rparr>
   \<and> y0_attr cached_2x3 = Some \<lparr>qvalue = 0, qunit = dimensionless\<rparr>
   \<and> q_ne (tagged_value (Bare 5) (yunit cached_2x3)) \<lparr>qvalue = 0, qunit = dimensionless\<rparr>
   \<and> yindex_attr (y0_setter (Bare 5) cached_2x3) = None
   \<and> (\<exists>self'. yindex_getter (y0_setter (Bare 5) cached_2x3) =
         Inr (\<lparr>ivalue = [5, 6, 7], iunit = dimensionless\<rparr>, self'))
   \<and> \<not> q_ne (tagged_value (Bare 0) (yunit cached_2x3)) \<lparr>qvalue = 0, qunit = dimensionless\<rparr>
   \<and> yindex_attr (y0_setter (Bare 0) cached_2x3)
       = Some \<lparr>ivalue = [0, 1, 2], iunit = dimensionless\<rparr>"
proof -
  have c: "yindex_attr cached_2x3 = Some \<lparr>ivalue = [0, 1, 2], iunit = dimensionless\<rparr>"
    and o: "y0_attr cached_2x3 = Some \<lparr>qvalue = 0, qunit = dimensionless\<rparr>"
    and u: "yunit cached_2x3 = dimensionless"
    and s: "dy_attr cached_2x3 = Some \<lparr>qvalue = 1, qunit = dimensionless\<rparr>"
    and n: "ysize cached_2x3 = 3"
    by (simp_all add: cached_2x3_def yunit_def)
  have upt: "[0..<3] = [0, 1, 2::nat]"
    by (simp add: upt_rec)
  have five: "tagged_value (Bare 5) (yunit cached_2x3) = \<lparr>qvalue = 5, qunit = dimensionless\<rparr>"
    and zero: "tagged_value (Bare 0) (yunit cached_2x3) = \<lparr>qvalue = 0, qunit = dimensionless\<rparr>"
    by (simp_all add: u tagged_value_def)
  have ne: "q_ne (tagged_value (Bare 5) (yunit cached_2x3)) \<lparr>qvalue = 0, qunit = dimensionless\<rparr>"
    and eq: "\<not> q_ne (tagged_value (Bare 0) (yunit cached_2x3)) \<lparr>qvalue = 0, qunit = dimensionless\<rparr>"
    by (simp_all add: five zero q_ne_def)
  have changed: "y0_attr cached_2x3 = None
      \<or> (\<exists>cur. y0_attr cached_2x3 = Some cur \<and> q_ne (tagged_value (Bare 5) (yunit cached_2x3)) cur)"
    using o ne by blast
  have kept: "\<exists>cur. y0_attr cached_2x3 = Some cur
      \<and> \<not> q_ne (tagged_value (Bare 0) (yunit cached_2x3)) cur"
    using o eq by blast
  have f: "factor (qunit (case dy_attr cached_2x3 of Some s \<Rightarrow> s
              | None \<Rightarrow> \<lparr>qvalue = 1, qunit = qunit (tagged_value (Bare 5) (yunit cached_2x3))\<rparr>))
             (qunit (tagged_value (Bare 5) (yunit cached_2x3))) = Inr 1"
    by (simp add: s five)
  note t5 = origin_change_invalidates_index [OF c, of "Bare 5", OF _ refl refl]
  from t5 changed have a1: "yindex_attr (y0_setter (Bare 5) cached_2x3) = None"
    by blast
  from t5 changed f have "\<exists>self'. yindex_getter (y0_setter (Bare 5) cached_2x3) =
      Inr (\<lparr>ivalue = map (\<lambda>i. qvalue (tagged_value (Bare 5) (yunit cached_2x3))
                 + of_nat i * qvalue (case dy_attr cached_2x3 of Some s \<Rightarrow> s
                     | None \<Rightarrow> \<lparr>qvalue = 1,
                         qunit = qunit (tagged_value (Bare 5) (yunit cached_2x3))\<rparr>) * 1)
               [0..<ysize cached_2x3],
            iunit = qunit (tagged_value (Bare 5) (yunit cached_2x3))\<rparr>, self')"
    by blast
  then have a2: "\<exists>self'. yindex_getter (y0_setter (Bare 5) cached_2x3) =
         Inr (\<lparr>ivalue = [5, 6, 7], iunit = dimensionless\<rparr>, self')"
    by (simp add: s five n upt)
  note t0 = origin_change_invalidates_index [OF c, of "Bare 0", OF _ refl refl]
  from t0 kept have b: "yindex_attr (y0_setter (Bare 0) cached_2x3)
       = Some \<lparr>ivalue = [0, 1, 2], iunit = dimensionless\<rparr>"
    by blast
  from c o ne a1 a2 eq b show ?thesis
    by (intro conjI)
qed

text \<open>
  Two cases the rule above covers and a rule without them misses. After the origin of an
  axis with the cached index 0, 1, 3 has been cleared, the origin getter reports 0, and
  writing the origin 0 drops the cached index all the same. And on an axis in hertz, a
  new origin in seconds drops the cached index, and the next read of the index fails.
\<close>

theorem cleared_origin_write_drops_index:
  "y0_setter PyNone irregular_2x3 = irregular_2x3\<lparr>y0_attr := None\<rparr>
   \<and> yindex_attr (irregular_2x3\<lparr>y0_attr := None\<rparr>)
       = Some \<lparr>ivalue = [0, 1, 3], iunit = dimensionless\<rparr>
   \<and> fst (y0_getter (irregular_2x3\<lparr>y0_attr := None\<rparr>)) = \<lparr>qvalue = 0, qunit = dimensionless\<rparr>
   \<and> tagged_value (Bare 0) (yunit (irregular_2x3\<lparr>y0_attr := None\<rparr>))
       = \<lparr>qvalue = 0, qunit = dimensionless\<rparr>
   \<and> yindex_attr (y0_setter (Bare 0) (irregular_2x3\<lparr>y0_attr := None\<rparr>)) = None
   \<and> yindex_attr cached_hertz_2x3 = Some \<lparr>ivalue = [0, 1, 2], iunit = Unit ''Hz'' 1\<rparr>
   \<and> y0_attr cached_hertz_2x3 = Some \<lparr>qvalue = 0, qunit = Unit ''Hz'' 1\<rparr>
   \<and> q_ne \<lparr>qvalue = 5, qunit = Unit ''s'' 1\<rparr> \<lparr>qvalue = 0, qunit = Unit ''Hz'' 1\<rparr>
   \<and> yindex_getter (y0_setter (Quant \<lparr>qvalue = 5, qunit = Unit ''s'' 1\<rparr>) cached_hertz_2x3)
       = Inl (UnitConversionError (Unit ''Hz'' 1) (Unit ''s'' 1))"
proof -
  let ?cleared = "irregular_2x3\<lparr>y0_attr := None\<rparr>"
  have a: "y0_setter PyNone irregular_2x3 = ?cleared"
    by (simp add: y0_setter_def y0_deleter_def)
  have b: "yindex_attr ?cleared = Some \<lparr>ivalue = [0, 1, 3], iunit = dimensionless\<rparr>"
    by (simp add: irregular_2x3_def)
  have u: "yunit ?cleared = dimensionless"
    by (simp add: yunit_def irregular_2x3_def default_yunit_def)
  have c: "fst (y0_getter ?cleared) = \<lparr>qvalue = 0, qunit = dimensionless\<rparr>"
    by (simp add: y0_getter_def u Let_def)
  have d: "tagged_value (Bare 0) (yunit ?cleared) = \<lparr>qvalue = 0, qunit = dimensionless\<rparr>"
    by (simp add: tagged_value_def u)
  have e: "yindex_attr (y0_setter (Bare 0) ?cleared) = None"
    by (simp add: y0_setter_def yindex_deleter_def)
  have f: "yindex_attr cached_hertz_2x3 = Some \<lparr>ivalue = [0, 1, 2], iunit = Unit ''Hz'' 1\<rparr>"
    and g: "y0_attr cached_hertz_2x3 = Some \<lparr>qvalue = 0, qunit = Unit ''Hz'' 1\<rparr>"
    and s: "dy_attr cached_hertz_2x3 = Some \<lparr>qvalue = 1, qunit = Unit ''Hz'' 1\<rparr>"
    by (simp_all add: cached_hertz_2x3_def)
  have h: "q_ne \<lparr>qvalue = 5, qunit = Unit ''s'' 1\<rparr> \<lparr>qvalue = 0, qunit = Unit ''Hz'' 1\<rparr>"
    by (simp add: q_ne_def factor_def)
  from g h have set: "y0_setter (Quant \<lparr>qvalue = 5, qunit = Unit ''s'' 1\<rparr>) cached_hertz_2x3
      = cached_hertz_2x3\<lparr>yindex_attr := None,
                         y0_attr := Some \<lparr>qvalue = 5, qunit = Unit ''s'' 1\<rparr>\<rparr>"
    by (simp add: y0_setter_changed tagged_value_def)
  have i: "yindex_getter (y0_setter (Quant \<lparr>qvalue = 5, qunit = Unit ''s'' 1\<rparr>) cached_hertz_2x3)
       = Inl (UnitConversionError (Unit ''Hz'' 1) (Unit ''s'' 1))"
    unfolding set
    by (rule yindex_getter_inconvertible [where v = "\<lparr>qvalue = 5, qunit = Unit ''s'' 1\<rparr>"
          and d = "\<lparr>qvalue = 1, qunit = Unit ''Hz'' 1\<rparr>"])
      (simp_all add: s factor_def)
  from a b c d e f g h i show ?thesis
    by (intro conjI)
qed

subsection \<open>Setting the index\<close>

text \<open>
  What the index setter does with an array-like, in closed form: it fails on a sequence
  too short to read the origin (and the step of a regular one) from, and otherwise
  overwrites all three y-axis slots, whatever they held.
\<close>

lemma yindex_setter_Some:
  "yindex_setter (Some a) self =
     (if ivalue (as_index default_yunit a) = [] then Inl (IndexError ''index out of bounds'')
      else if regular (as_index default_yunit a) then
        (if length (ivalue (as_index default_yunit a)) < 2
         then Inl (IndexError ''index out of bounds'')
         else Inr (self\<lparr>y0_attr := Some \<lparr>qvalue = ivalue (as_index default_yunit a) ! 0,
                                          qunit = iunit (as_index default_yunit a)\<rparr>,
                        dy_attr := Some \<lparr>qvalue = ivalue (as_index default_yunit a) ! 1
                                                 - ivalue (as_index default_yunit a) ! 0,
                                          qunit = iunit (as_index default_yunit a)\<rparr>,
                        yindex_attr := Some (as_index default_yunit a)\<rparr>))
      else Inr (self\<lparr>y0_attr := Some \<lparr>qvalue = ivalue (as_index default_yunit a) ! 0,
                                       qunit = iunit (as_index default_yunit a)\<rparr>,
                     dy_attr := None,
                     yindex_attr := Some (as_index default_yunit a)\<rparr>))"
proof -
  let ?idx = "as_index default_yunit a"
  show ?thesis
  proof (cases "ivalue ?idx = []")
    case True
    then show ?thesis
      by (simp add: yindex_setter_def Let_def index_getitem_def)
  next
    case False
    then have len0: "0 < length (ivalue ?idx)" by simp
    show ?thesis
    proof (cases "regular ?idx")
      case irr: False
      with False len0 show ?thesis
        by (simp add: yindex_setter_def Let_def index_getitem_def y0_setter_def dy_deleter_def
            yindex_deleter_def tagged_value_def split: option.splits)
    next
      case reg: True
      show ?thesis
      proof (cases "length (ivalue ?idx) < 2")
        case True
        with False reg len0 show ?thesis
          by (simp add: yindex_setter_def Let_def index_getitem_def)
      next
        case long: False
        with False reg len0 show ?thesis
          by (simp add: yindex_setter_def Let_def index_getitem_def y0_setter_def
              dy_setter_def q_sub_def yindex_deleter_def tagged_value_def
              split: option.splits)
      qed
    qed
  qed
qed

text \<open>
  C3, as the code has it: the index setter and the constructor compare no lengths. Every
  array-like of at least two elements is accepted and cached as it is, whatever the
  extent of the buffer along the axis; the only failure is the index error of reading the
  first or the second element of a shorter sequence.
\<close>

theorem index_length_is_not_checked:
  "(2 \<le> length (ivalue (as_index default_yunit a)) \<longrightarrow>
      (\<exists>self'. yindex_setter (Some a) self = Inr self'
         \<and> yindex_attr self' = Some (as_index default_yunit a)
         \<and> new_array2d self PyNone PyNone (Some a) = Inr self'))
   \<and> (\<forall>e. yindex_setter (Some a) self = Inl e \<longrightarrow>
         e = IndexError ''index out of bounds''
         \<and> length (ivalue (as_index default_yunit a)) < 2)"
proof -
  let ?idx = "as_index default_yunit a"
  have "2 \<le> length (ivalue ?idx) \<Longrightarrow> ivalue ?idx \<noteq> []"
    by auto
  moreover have "\<not> regular ?idx \<Longrightarrow> \<not> length (ivalue ?idx) < 2"
    using irregular_length [of ?idx] by simp
  ultimately show ?thesis
    by (auto simp add: yindex_setter_Some new_array2d_def split: if_splits)
qed

theorem index_length_is_not_checked_witness:
  "2 \<le> length (ivalue (as_index default_yunit (Plain [0, 1, 2, 3])))
   \<and> length (ivalue (as_index default_yunit (Plain [0, 1, 2, 3]))) \<noteq> ysize blank_2x3
   \<and> (\<exists>self'. yindex_setter (Some (Plain [0, 1, 2, 3])) blank_2x3 = Inr self'
         \<and> yindex_attr self' = Some (as_index default_yunit (Plain [0, 1, 2, 3]))
         \<and> new_array2d blank_2x3 PyNone PyNone (Some (Plain [0, 1, 2, 3])) = Inr self')
   \<and> yindex_setter (Some (Plain [])) blank_2x3 = Inl (IndexError ''index out of bounds'')
   \<and> length (ivalue (as_index default_yunit (Plain []))) < 2"
proof -
  have len: "2 \<le> length (ivalue (as_index default_yunit (Plain [0, 1, 2, 3])))"
    by (simp add: as_index_def)
  have ne: "length (ivalue (as_index default_yunit (Plain [0, 1, 2, 3]))) \<noteq> ysize blank_2x3"
    by (simp add: as_index_def blank_2x3_def)
  have fails: "yindex_setter (Some (Plain [])) blank_2x3 = Inl (IndexError ''index out of bounds'')"
    by (simp add: yindex_setter_def as_index_def index_getitem_def)
  have accepted: "\<exists>self'. yindex_setter (Some (Plain [0, 1, 2, 3])) blank_2x3 = Inr self'
         \<and> yindex_attr self' = Some (as_index default_yunit (Plain [0, 1, 2, 3]))
         \<and> new_array2d blank_2x3 PyNone PyNone (Some (Plain [0, 1, 2, 3])) = Inr self'"
    using index_length_is_not_checked [of "Plain [0, 1, 2, 3]" blank_2x3] len by blast
  have short: "length (ivalue (as_index default_yunit (Plain []))) < 2"
    using index_length_is_not_checked [of "Plain []" blank_2x3] fails by blast
  from len ne accepted fails short show ?thesis
    by (intro conjI)
qed

theorem short_index_is_accepted:
  "length [0, 1 :: rat] \<noteq> ysize blank_2x3
   \<and> yindex_setter (Some (Plain [0, 1])) blank_2x3 =
       Inr (blank_2x3\<lparr>y0_attr := Some \<lparr>qvalue = 0, qunit = dimensionless\<rparr>,
                      dy_attr := Some \<lparr>qvalue = 1, qunit = dimensionless\<rparr>,
                      yindex_attr := Some \<lparr>ivalue = [0, 1], iunit = dimensionless\<rparr>\<rparr>)
   \<and> new_array2d blank_2x3 PyNone PyNone (Some (Plain [0, 1])) =
       Inr (blank_2x3\<lparr>y0_attr := Some \<lparr>qvalue = 0, qunit = dimensionless\<rparr>,
                      dy_attr := Some \<lparr>qvalue = 1, qunit = dimensionless\<rparr>,
                      yindex_attr := Some \<lparr>ivalue = [0, 1], iunit = dimensionless\<rparr>\<rparr>)"
  by (simp add: yindex_setter_Some new_array2d_def as_index_def default_yunit_def regular_def
      diffs_def blank_2x3_def)

lemma yindex_setter_forgets_y0 [simp]:
  "yindex_setter (Some a) (self\<lparr>y0_attr := p\<rparr>) = yindex_setter (Some a) self"
  by (simp add: yindex_setter_Some)

lemma yindex_setter_forgets_dy [simp]:
  "yindex_setter (Some a) (self\<lparr>dy_attr := q\<rparr>) = yindex_setter (Some a) self"
  by (simp add: yindex_setter_Some)

lemma yindex_setter_forgets_yindex [simp]:
  "yindex_setter (Some a) (self\<lparr>yindex_attr := r\<rparr>) = yindex_setter (Some a) self"
  by (simp add: yindex_setter_Some)

lemma yindex_setter_after_y0_setter:
  "yindex_setter (Some a) (y0_setter val self) = yindex_setter (Some a) self"
proof (cases val)
  case PyNone
  then show ?thesis
    by (simp add: y0_setter_def y0_deleter_def)
next
  case (Bare b)
  then show ?thesis
    by (cases "y0_attr self") (simp_all add: y0_setter_def yindex_deleter_def Let_def)
next
  case (Quant q)
  then show ?thesis
    by (cases "y0_attr self") (simp_all add: y0_setter_def yindex_deleter_def Let_def)
qed

lemma yindex_setter_after_dy_setter:
  assumes "dy_setter val self = Inr self'"
  shows "yindex_setter (Some a) self' = yindex_setter (Some a) self"
proof (cases val)
  case PyNone
  with assms show ?thesis
    by (auto simp add: dy_setter_def dy_deleter_def)
next
  case (Bare b)
  with assms obtain v where "q_to \<lparr>qvalue = b, qunit = dimensionless\<rparr> (yunit self) = Inr v"
    by (cases "q_to \<lparr>qvalue = b, qunit = dimensionless\<rparr> (yunit self)")
      (simp_all add: dy_setter_def)
  with assms Bare show ?thesis
    by (cases "dy_attr self") (auto simp add: dy_setter_def yindex_deleter_def Let_def)
next
  case (Quant q)
  with assms show ?thesis
    by (cases "dy_attr self") (auto simp add: dy_setter_def yindex_deleter_def Let_def)
qed

lemma dy_setter_Quant_succeeds: "\<exists>self'. dy_setter (Quant v) self = Inr self'"
  by (simp add: dy_setter_def Let_def)

subsection \<open>Construction with an index and an origin and step\<close>

text \<open>
  A call with an index next to an origin and a step that convert into one another builds
  what the call with the index alone builds.
\<close>

lemma new_array2d_with_index:
  assumes "\<not> (\<exists>q p. y0 = Quant q \<and> dy = Quant p
                   \<and> dimension (qunit q) \<noteq> dimension (qunit p))"
  shows "new_array2d new y0 dy (Some a) = new_array2d new PyNone PyNone (Some a)
         \<and> new_array2d new y0 dy (Some a) = yindex_setter (Some a) new
         \<and> (2 \<le> length (ivalue (as_index default_yunit a)) \<longrightarrow>
              new_array2d new y0 dy (Some a) =
                Inr (new\<lparr>y0_attr := Some \<lparr>qvalue = ivalue (as_index default_yunit a) ! 0,
                                           qunit = iunit (as_index default_yunit a)\<rparr>,
                         dy_attr :=
                           (if regular (as_index default_yunit a)
                            then Some \<lparr>qvalue = ivalue (as_index default_yunit a) ! 1
                                               - ivalue (as_index default_yunit a) ! 0,
                                        qunit = iunit (as_index default_yunit a)\<rparr>
                            else None),
                         yindex_attr := Some (as_index default_yunit a)\<rparr>))"
proof -
  define yu where
    "yu = (case dy of Quant q \<Rightarrow> qunit q
           | _ \<Rightarrow> (case y0 of Quant q \<Rightarrow> qunit q | _ \<Rightarrow> default_yunit))"
  have plain: "new_array2d new PyNone PyNone (Some a) = yindex_setter (Some a) new"
    by (simp add: new_array2d_def)
  have step: "dy \<noteq> PyNone \<Longrightarrow> \<exists>q. Quantity dy yu = Inr q"
    by (cases dy) (simp_all add: yu_def Quantity_def q_to_def)
  have origin: "y0 \<noteq> PyNone \<Longrightarrow> \<exists>q. Quantity y0 yu = Inr q"
  proof (cases y0)
    case (Quant q)
    show ?thesis
    proof (cases dy)
      case (Quant p)
      with \<open>y0 = Quant q\<close> assms have "dimension (qunit q) = dimension (qunit p)"
        by simp
      with Quant \<open>y0 = Quant q\<close> show ?thesis
        by (simp add: yu_def Quantity_def q_to_def factor_def)
    qed (use \<open>y0 = Quant q\<close> in \<open>simp_all add: yu_def Quantity_def q_to_def\<close>)
  qed (simp_all add: Quantity_def)
  define A where
    "A = (if dy \<noteq> PyNone then bind_err (Quantity dy yu) (\<lambda>q. dy_setter (Quant q) new)
          else Inr new)"
  define B where
    "B = (\<lambda>n. if y0 \<noteq> PyNone
               then bind_err (Quantity y0 yu) (\<lambda>q. Inr (y0_setter (Quant q) n))
               else Inr n)"
  have unfolded: "new_array2d new y0 dy (Some a) =
      bind_err A (\<lambda>n1. bind_err (B n1) (\<lambda>n2. yindex_setter (Some a) n2))"
    by (simp add: new_array2d_def Let_def A_def B_def yu_def)
  obtain new1 where new1: "A = Inr new1"
    and keep1: "yindex_setter (Some a) new1 = yindex_setter (Some a) new"
  proof (cases "dy = PyNone")
    case True
    then show ?thesis using that by (simp add: A_def)
  next
    case False
    with step obtain q where q: "Quantity dy yu = Inr q" by blast
    obtain s where s: "dy_setter (Quant q) new = Inr s"
      using dy_setter_Quant_succeeds by blast
    with False q show ?thesis
      using that [of s] yindex_setter_after_dy_setter [OF s] by (simp add: A_def)
  qed
  obtain new2 where new2: "B new1 = Inr new2"
    and keep2: "yindex_setter (Some a) new2 = yindex_setter (Some a) new1"
  proof (cases "y0 = PyNone")
    case True
    then show ?thesis using that by (simp add: B_def)
  next
    case False
    with origin obtain q where q: "Quantity y0 yu = Inr q" by blast
    with False show ?thesis
      using that [of "y0_setter (Quant q) new1"] yindex_setter_after_y0_setter
      by (simp add: B_def)
  qed
  have both: "new_array2d new y0 dy (Some a) = yindex_setter (Some a) new"
    by (simp add: unfolded new1 new2 keep1 keep2)
  have "2 \<le> length (ivalue (as_index default_yunit a)) \<Longrightarrow>
          ivalue (as_index default_yunit a) \<noteq> []"
    by auto
  with plain both show ?thesis
    by (auto simp add: yindex_setter_Some)
qed

text \<open>
  The step is applied first and gives the unit; an origin of another physical dimension
  does not convert to it, and the call fails before the index is looked at.
\<close>

lemma new_array2d_unit_clash:
  assumes "y0 = Quant q" and "dy = Quant p" and "dimension (qunit q) \<noteq> dimension (qunit p)"
  shows "new_array2d new y0 dy yindex = Inl (UnitConversionError (qunit q) (qunit p))"
proof -
  from assms(3) have "qunit q \<noteq> qunit p"
    by auto
  with assms(3) have "factor (qunit q) (qunit p) = Inl (UnitConversionError (qunit q) (qunit p))"
    by (simp add: factor_def)
  with assms(1,2) show ?thesis
    by (simp add: new_array2d_def Quantity_def q_to_def dy_setter_def Let_def)
qed

text \<open>
  C8, as the code has it: a construction call that gives an explicit y-axis index next to
  an origin and a step fails with a unit conversion error when origin and step are
  quantities of different physical dimension; every other such call builds the same
  object as the call with the index alone: origin, step and index are those the index
  setter derives from the explicit index, and the origin and step given are not in the
  result.
\<close>

theorem explicit_index_takes_precedence:
  "(\<not> (\<exists>q p. y0 = Quant q \<and> dy = Quant p \<and> dimension (qunit q) \<noteq> dimension (qunit p)) \<longrightarrow>
      new_array2d new y0 dy (Some a) = new_array2d new PyNone PyNone (Some a)
      \<and> new_array2d new y0 dy (Some a) = yindex_setter (Some a) new
      \<and> (2 \<le> length (ivalue (as_index default_yunit a)) \<longrightarrow>
           new_array2d new y0 dy (Some a) =
             Inr (new\<lparr>y0_attr := Some \<lparr>qvalue = ivalue (as_index default_yunit a) ! 0,
                                        qunit = iunit (as_index default_yunit a)\<rparr>,
                      dy_attr :=
                        (if regular (as_index default_yunit a)
                         then Some \<lparr>qvalue = ivalue (as_index default_yunit a) ! 1
                                            - ivalue (as_index default_yunit a) ! 0,
                                     qunit = iunit (as_index default_yunit a)\<rparr>
                         else None),
                      yindex_attr := Some (as_index default_yunit a)\<rparr>)))
   \<and> (\<forall>q p. y0 = Quant q \<and> dy = Quant p \<and> dimension (qunit q) \<noteq> dimension (qunit p) \<longrightarrow>
         new_array2d new y0 dy (Some a) = Inl (UnitConversionError (qunit q) (qunit p)))"
proof (intro conjI impI allI)
  fix q p
  assume "y0 = Quant q \<and> dy = Quant p \<and> dimension (qunit q) \<noteq> dimension (qunit p)"
  then show "new_array2d new y0 dy (Some a) = Inl (UnitConversionError (qunit q) (qunit p))"
    by (simp add: new_array2d_unit_clash)
next
  assume ok: "\<not> (\<exists>q p. y0 = Quant q \<and> dy = Quant p
                   \<and> dimension (qunit q) \<noteq> dimension (qunit p))"
  note t = new_array2d_with_index [OF ok, of new a]
  from t show "new_array2d new y0 dy (Some a) = new_array2d new PyNone PyNone (Some a)"
    by (rule conjunct1)
  from t show "new_array2d new y0 dy (Some a) = yindex_setter (Some a) new"
    by blast
  assume "2 \<le> length (ivalue (as_index default_yunit a))"
  with t show "new_array2d new y0 dy (Some a) =
             Inr (new\<lparr>y0_attr := Some \<lparr>qvalue = ivalue (as_index default_yunit a) ! 0,
                                        qunit = iunit (as_index default_yunit a)\<rparr>,
                      dy_attr :=
                        (if regular (as_index default_yunit a)
                         then Some \<lparr>qvalue = ivalue (as_index default_yunit a) ! 1
                                            - ivalue (as_index default_yunit a) ! 0,
                                     qunit = iunit (as_index default_yunit a)\<rparr>
                         else None),
                      yindex_attr := Some (as_index default_yunit a)\<rparr>)"
    by blast
qed

theorem explicit_index_takes_precedence_witness:
  "\<not> (\<exists>q p. Bare 100 = Quant q \<and> Bare 7 = Quant p
            \<and> dimension (qunit q) \<noteq> dimension (qunit p))
   \<and> 2 \<le> length (ivalue (as_index default_yunit (Plain [0, 1, 3])))
   \<and> new_array2d blank_2x3 (Bare 100) (Bare 7) (Some (Plain [0, 1, 3]))
       = new_array2d blank_2x3 PyNone PyNone (Some (Plain [0, 1, 3]))
   \<and> new_array2d blank_2x3 (Bare 100) (Bare 7) (Some (Plain [0, 1, 3]))
       = Inr (blank_2x3\<lparr>y0_attr := Some \<lparr>qvalue = 0, qunit = dimensionless\<rparr>,
                        dy_attr := None,
                        yindex_attr := Some \<lparr>ivalue = [0, 1, 3], iunit = dimensionless\<rparr>\<rparr>)
   \<and> dimension (qunit \<lparr>qvalue = 0, qunit = Unit ''s'' 1\<rparr>)
        \<noteq> dimension (qunit \<lparr>qvalue = 1, qunit = Unit ''Hz'' 1\<rparr>)
   \<and> new_array2d blank_2x3 (Quant \<lparr>qvalue = 0, qunit = Unit ''s'' 1\<rparr>)
        (Quant \<lparr>qvalue = 1, qunit = Unit ''Hz'' 1\<rparr>) (Some (Plain [0, 1, 3]))
       = Inl (UnitConversionError (Unit ''s'' 1) (Unit ''Hz'' 1))"
proof -
  have h: "\<not> (\<exists>q p. Bare 100 = Quant q \<and> Bare 7 = Quant p
            \<and> dimension (qunit q) \<noteq> dimension (qunit p))"
    by simp
  have len: "2 \<le> length (ivalue (as_index default_yunit (Plain [0, 1, 3])))"
    and irr: "\<not> regular (as_index default_yunit (Plain [0, 1, 3]))"
    and idx: "as_index default_yunit (Plain [0, 1, 3])
                = \<lparr>ivalue = [0, 1, 3], iunit = dimensionless\<rparr>"
    by (simp_all add: as_index_def regular_def diffs_def default_yunit_def)
  note t = explicit_index_takes_precedence
    [of "Bare 100" "Bare 7" blank_2x3 "Plain [0, 1, 3]"]
  from t h have same: "new_array2d blank_2x3 (Bare 100) (Bare 7) (Some (Plain [0, 1, 3]))
       = new_array2d blank_2x3 PyNone PyNone (Some (Plain [0, 1, 3]))"
    by blast
  from t h len have "new_array2d blank_2x3 (Bare 100) (Bare 7) (Some (Plain [0, 1, 3])) =
      Inr (blank_2x3\<lparr>y0_attr := Some \<lparr>qvalue = ivalue (as_index default_yunit (Plain [0, 1, 3])) ! 0,
                                           qunit = iunit (as_index default_yunit (Plain [0, 1, 3]))\<rparr>,
                     dy_attr :=
                       (if regular (as_index default_yunit (Plain [0, 1, 3]))
                        then Some \<lparr>qvalue = ivalue (as_index default_yunit (Plain [0, 1, 3])) ! 1
                                           - ivalue (as_index default_yunit (Plain [0, 1, 3])) ! 0,
                                    qunit = iunit (as_index default_yunit (Plain [0, 1, 3]))\<rparr>
                        else None),
                     yindex_attr := Some (as_index default_yunit (Plain [0, 1, 3]))\<rparr>)"
    by blast
  with irr have result: "new_array2d blank_2x3 (Bare 100) (Bare 7) (Some (Plain [0, 1, 3]))
       = Inr (blank_2x3\<lparr>y0_attr := Some \<lparr>qvalue = 0, qunit = dimensionless\<rparr>,
                        dy_attr := None,
                        yindex_attr := Some \<lparr>ivalue = [0, 1, 3], iunit = dimensionless\<rparr>\<rparr>)"
    by (simp add: idx)
  have dims: "dimension (qunit \<lparr>qvalue = 0, qunit = Unit ''s'' 1\<rparr>)
        \<noteq> dimension (qunit \<lparr>qvalue = 1, qunit = Unit ''Hz'' 1\<rparr>)"
    by simp
  note c = explicit_index_takes_precedence
    [of "Quant \<lparr>qvalue = 0, qunit = Unit ''s'' 1\<rparr>"
        "Quant \<lparr>qvalue = 1, qunit = Unit ''Hz'' 1\<rparr>" blank_2x3 "Plain [0, 1, 3]"]
  from c dims have "new_array2d blank_2x3 (Quant \<lparr>qvalue = 0, qunit = Unit ''s'' 1\<rparr>)
        (Quant \<lparr>qvalue = 1, qunit = Unit ''Hz'' 1\<rparr>) (Some (Plain [0, 1, 3]))
       = Inl (UnitConversionError (qunit \<lparr>qvalue = 0, qunit = Unit ''s'' 1\<rparr>)
                (qunit \<lparr>qvalue = 1, qunit = Unit ''Hz'' 1\<rparr>))"
    by blast
  then have clash: "new_array2d blank_2x3 (Quant \<lparr>qvalue = 0, qunit = Unit ''s'' 1\<rparr>)
        (Quant \<lparr>qvalue = 1, qunit = Unit ''Hz'' 1\<rparr>) (Some (Plain [0, 1, 3]))
       = Inl (UnitConversionError (Unit ''s'' 1) (Unit ''Hz'' 1))"
    by simp
  from h len same result dims clash show ?thesis
    by (intro conjI)
qed

text \<open>
  A call that the index does not decide: with the origin in seconds and the step in hertz
  it fails, where the call with the same index alone succeeds.
\<close>

theorem index_with_clashing_units_fails:
  "new_array2d blank_2x3 (Quant \<lparr>qvalue = 0, qunit = Unit ''s'' 1\<rparr>)
       (Quant \<lparr>qvalue = 1, qunit = Unit ''Hz'' 1\<rparr>) (Some (Plain [0, 1, 3]))
     = Inl (UnitConversionError (Unit ''s'' 1) (Unit ''Hz'' 1))
   \<and> new_array2d blank_2x3 PyNone PyNone (Some (Plain [0, 1, 3]))
     = Inr (blank_2x3\<lparr>y0_attr := Some \<lparr>qvalue = 0, qunit = dimensionless\<rparr>,
                      dy_attr := None,
                      yindex_attr := Some \<lparr>ivalue = [0, 1, 3], iunit = dimensionless\<rparr>\<rparr>)"
proof -
  have clash: "new_array2d blank_2x3 (Quant \<lparr>qvalue = 0, qunit = Unit ''s'' 1\<rparr>)
       (Quant \<lparr>qvalue = 1, qunit = Unit ''Hz'' 1\<rparr>) (Some (Plain [0, 1, 3]))
     = Inl (UnitConversionError (Unit ''s'' 1) (Unit ''Hz'' 1))"
    using new_array2d_unit_clash [of "Quant \<lparr>qvalue = 0, qunit = Unit ''s'' 1\<rparr>"
        "\<lparr>qvalue = 0, qunit = Unit ''s'' 1\<rparr>" "Quant \<lparr>qvalue = 1, qunit = Unit ''Hz'' 1\<rparr>"
        "\<lparr>qvalue = 1, qunit = Unit ''Hz'' 1\<rparr>" blank_2x3 "Some (Plain [0, 1, 3])"]
    by simp
  have irr: "\<not> regular (as_index default_yunit (Plain [0, 1, 3]))"
    and idx: "as_index default_yunit (Plain [0, 1, 3])
                = \<lparr>ivalue = [0, 1, 3], iunit = dimensionless\<rparr>"
    by (simp_all add: as_index_def regular_def diffs_def default_yunit_def)
  have alone: "new_array2d blank_2x3 PyNone PyNone (Some (Plain [0, 1, 3]))
     = Inr (blank_2x3\<lparr>y0_attr := Some \<lparr>qvalue = 0, qunit = dimensionless\<rparr>,
                      dy_attr := None,
                      yindex_attr := Some \<lparr>ivalue = [0, 1, 3], iunit = dimensionless\<rparr>\<rparr>)"
    using irr by (simp add: new_array2d_def yindex_setter_Some idx)
  from clash alone show ?thesis
    by (intro conjI)
qed

subsection \<open>Materialising the index and setting it back\<close>

text \<open>
  C6, as the code has it: on a regular y-axis with origin and step set in units that
  convert into one another, the materialised index has one element per position and
  element \<open>i\<close> is the origin plus \<open>i\<close> steps; and when the extent is at least two, setting
  that index back keeps origin and index as they are and stores as the step what the
  setter derives from the index: the second element minus the first when the index counts
  as regular, no step otherwise.
\<close>

theorem regular_index_round_trip:
  assumes "yindex_attr self = None" and "y0_attr self = Some v" and "dy_attr self = Some d"
    and "factor (qunit d) (qunit v) = Inr f"
  shows "\<exists>idx self1. yindex_getter self = Inr (idx, self1)
           \<and> self1 = self\<lparr>yindex_attr := Some idx\<rparr>
           \<and> length (ivalue idx) = ysize self
           \<and> (\<forall>i<ysize self. index_getitem idx i = q_add v (q_scale (of_nat i) d))
           \<and> (2 \<le> ysize self \<longrightarrow>
                yindex_setter (Some (Tagged idx)) self1 =
                  Inr (self1\<lparr>dy_attr :=
                         (if regular idx
                          then Some \<lparr>qvalue = ivalue idx ! 1 - ivalue idx ! 0,
                                      qunit = iunit idx\<rparr>
                          else None)\<rparr>))"
proof -
  define idx where
    "idx = \<lparr>ivalue = map (\<lambda>i. qvalue v + of_nat i * qvalue d * f) [0..<ysize self],
            iunit = qunit v\<rparr>"
  define self1 where "self1 = self\<lparr>yindex_attr := Some idx\<rparr>"
  have get: "yindex_getter self = Inr (idx, self1)"
    using assms by (simp add: yindex_getter_regular idx_def self1_def)
  have len: "length (ivalue idx) = ysize self"
    by (simp add: idx_def)
  have elems: "\<forall>i<ysize self. index_getitem idx i = q_add v (q_scale (of_nat i) d)"
    using assms(4) by (simp add: idx_def index_getitem_def q_add_def q_scale_def)
  have setback: "yindex_setter (Some (Tagged idx)) self1 =
      Inr (self1\<lparr>dy_attr :=
             (if regular idx
              then Some \<lparr>qvalue = ivalue idx ! 1 - ivalue idx ! 0, qunit = iunit idx\<rparr>
              else None)\<rparr>)"
    if two: "2 \<le> ysize self"
  proof -
    have as: "as_index default_yunit (Tagged idx) = idx"
      by (simp add: as_index_def)
    from two have ne: "ivalue idx \<noteq> []" and long: "\<not> length (ivalue idx) < 2"
      by (auto simp add: idx_def)
    from two have v0: "ivalue idx ! 0 = qvalue v"
      by (simp add: idx_def)
    have u: "iunit idx = qunit v"
      by (simp add: idx_def)
    have first: "\<lparr>qvalue = ivalue idx ! 0, qunit = iunit idx\<rparr> = v"
      by (simp add: v0 u)
    have origin: "self1\<lparr>y0_attr := Some v, yindex_attr := Some idx\<rparr> = self1"
      using assms(2) by (simp add: self1_def)
    show ?thesis
    proof (cases "regular idx")
      case True
      with ne long have "yindex_setter (Some (Tagged idx)) self1 =
          Inr (self1\<lparr>y0_attr := Some v,
                      dy_attr := Some \<lparr>qvalue = ivalue idx ! 1 - ivalue idx ! 0,
                                        qunit = iunit idx\<rparr>,
                      yindex_attr := Some idx\<rparr>)"
        by (simp only: yindex_setter_Some as first if_True if_False)
      also have "self1\<lparr>y0_attr := Some v,
                      dy_attr := Some \<lparr>qvalue = ivalue idx ! 1 - ivalue idx ! 0,
                                        qunit = iunit idx\<rparr>,
                      yindex_attr := Some idx\<rparr>
          = self1\<lparr>dy_attr := Some \<lparr>qvalue = ivalue idx ! 1 - ivalue idx ! 0,
                                     qunit = iunit idx\<rparr>\<rparr>"
        using assms(2) by (simp add: self1_def)
      finally show ?thesis
        using True by simp
    next
      case False
      with ne have "yindex_setter (Some (Tagged idx)) self1 =
          Inr (self1\<lparr>y0_attr := Some v, dy_attr := None, yindex_attr := Some idx\<rparr>)"
        by (simp only: yindex_setter_Some as first if_True if_False)
      also have "self1\<lparr>y0_attr := Some v, dy_attr := None, yindex_attr := Some idx\<rparr>
          = self1\<lparr>dy_attr := None\<rparr>"
        using assms(2) by (simp add: self1_def)
      finally show ?thesis
        using False by simp
    qed
  qed
  from get len elems setback show ?thesis
    unfolding self1_def by blast
qed

theorem regular_index_round_trip_witness:
  "yindex_attr regular_2x3 = None
   \<and> factor dimensionless dimensionless = Inr 1
   \<and> 2 \<le> ysize regular_2x3
   \<and> yindex_getter regular_2x3 =
       Inr (\<lparr>ivalue = [10, 15, 20], iunit = dimensionless\<rparr>,
            regular_2x3\<lparr>yindex_attr := Some \<lparr>ivalue = [10, 15, 20], iunit = dimensionless\<rparr>\<rparr>)
   \<and> regular \<lparr>ivalue = [10, 15, 20], iunit = dimensionless\<rparr>
   \<and> (\<exists>idx self1. yindex_getter regular_2x3 = Inr (idx, self1)
         \<and> index_getitem idx 2
              = q_add \<lparr>qvalue = 10, qunit = dimensionless\<rparr>
                  (q_scale 2 \<lparr>qvalue = 5, qunit = dimensionless\<rparr>)
         \<and> yindex_setter (Some (Tagged idx)) self1 =
             Inr (self1\<lparr>dy_attr := Some \<lparr>qvalue = 5, qunit = dimensionless\<rparr>\<rparr>))"
proof -
  let ?idx = "\<lparr>ivalue = [10, 15, 20 :: rat], iunit = dimensionless\<rparr>"
  have c: "yindex_attr regular_2x3 = None"
    and o: "y0_attr regular_2x3 = Some \<lparr>qvalue = 10, qunit = dimensionless\<rparr>"
    and s: "dy_attr regular_2x3 = Some \<lparr>qvalue = 5, qunit = dimensionless\<rparr>"
    and n: "ysize regular_2x3 = 3"
    by (simp_all add: regular_2x3_def)
  have f: "factor (qunit \<lparr>qvalue = 5, qunit = dimensionless\<rparr>)
             (qunit \<lparr>qvalue = 10, qunit = dimensionless\<rparr>) = Inr 1"
    by simp
  have upt: "[0..<3] = [0, 1, 2::nat]"
    by (simp add: upt_rec)
  have get: "yindex_getter regular_2x3 = Inr (?idx, regular_2x3\<lparr>yindex_attr := Some ?idx\<rparr>)"
    using yindex_getter_regular [OF c o s f] by (simp add: n upt)
  have reg: "regular ?idx"
    by (simp add: regular_def diffs_def)
  from regular_index_round_trip [OF c o s f]
  obtain idx self1 where r: "yindex_getter regular_2x3 = Inr (idx, self1)"
    and e: "\<forall>i<ysize regular_2x3. index_getitem idx i
              = q_add \<lparr>qvalue = 10, qunit = dimensionless\<rparr>
                  (q_scale (of_nat i) \<lparr>qvalue = 5, qunit = dimensionless\<rparr>)"
    and b: "2 \<le> ysize regular_2x3 \<longrightarrow>
              yindex_setter (Some (Tagged idx)) self1 =
                Inr (self1\<lparr>dy_attr :=
                       (if regular idx
                        then Some \<lparr>qvalue = ivalue idx ! 1 - ivalue idx ! 0, qunit = iunit idx\<rparr>
                        else None)\<rparr>)"
    by blast
  from r get have i: "idx = ?idx"
    by simp
  have "(2::nat) < ysize regular_2x3"
    by (simp add: n)
  with e have "index_getitem idx 2
              = q_add \<lparr>qvalue = 10, qunit = dimensionless\<rparr>
                  (q_scale (of_nat 2) \<lparr>qvalue = 5, qunit = dimensionless\<rparr>)"
    by blast
  then have e2: "index_getitem idx 2
              = q_add \<lparr>qvalue = 10, qunit = dimensionless\<rparr>
                  (q_scale 2 \<lparr>qvalue = 5, qunit = dimensionless\<rparr>)"
    by simp
  have two: "2 \<le> ysize regular_2x3"
    by (simp add: n)
  from b two have "yindex_setter (Some (Tagged idx)) self1 =
                Inr (self1\<lparr>dy_attr :=
                       (if regular idx
                        then Some \<lparr>qvalue = ivalue idx ! 1 - ivalue idx ! 0, qunit = iunit idx\<rparr>
                        else None)\<rparr>)"
    by blast
  with reg have b2: "yindex_setter (Some (Tagged idx)) self1 =
             Inr (self1\<lparr>dy_attr := Some \<lparr>qvalue = 5, qunit = dimensionless\<rparr>\<rparr>)"
    by (simp add: i)
  from r e2 b2 have ex: "\<exists>idx self1. yindex_getter regular_2x3 = Inr (idx, self1)
         \<and> index_getitem idx 2
              = q_add \<lparr>qvalue = 10, qunit = dimensionless\<rparr>
                  (q_scale 2 \<lparr>qvalue = 5, qunit = dimensionless\<rparr>)
         \<and> yindex_setter (Some (Tagged idx)) self1 =
             Inr (self1\<lparr>dy_attr := Some \<lparr>qvalue = 5, qunit = dimensionless\<rparr>\<rparr>)"
    by blast
  have ff: "factor dimensionless dimensionless = Inr 1"
    by simp
  from c ff two get reg ex show ?thesis
    by (intro conjI)
qed

text \<open>
  With a single column the round trip does not give the step back: the materialised
  index has one element, and setting it leaves no step of 2 in the step slot.
\<close>

theorem single_column_round_trip_loses_step:
  "yindex_attr single_column = None
   \<and> y0_attr single_column = Some \<lparr>qvalue = 0, qunit = dimensionless\<rparr>
   \<and> dy_attr single_column = Some \<lparr>qvalue = 2, qunit = dimensionless\<rparr>
   \<and> yindex_getter single_column =
       Inr (\<lparr>ivalue = [0], iunit = dimensionless\<rparr>,
            single_column\<lparr>yindex_attr := Some \<lparr>ivalue = [0], iunit = dimensionless\<rparr>\<rparr>)
   \<and> (case yindex_setter (Some (Tagged \<lparr>ivalue = [0], iunit = dimensionless\<rparr>))
              (single_column\<lparr>yindex_attr := Some \<lparr>ivalue = [0], iunit = dimensionless\<rparr>\<rparr>) of
         Inl e \<Rightarrow> None
       | Inr self' \<Rightarrow> dy_attr self')
       \<noteq> Some \<lparr>qvalue = 2, qunit = dimensionless\<rparr>"
proof -
  have c: "yindex_attr single_column = None"
    and o: "y0_attr single_column = Some \<lparr>qvalue = 0, qunit = dimensionless\<rparr>"
    and s: "dy_attr single_column = Some \<lparr>qvalue = 2, qunit = dimensionless\<rparr>"
    and n: "ysize single_column = 1"
    by (simp_all add: single_column_def)
  have f: "factor (qunit \<lparr>qvalue = 2, qunit = dimensionless\<rparr>)
             (qunit \<lparr>qvalue = 0, qunit = dimensionless\<rparr>) = Inr 1"
    by simp
  have get: "yindex_getter single_column =
       Inr (\<lparr>ivalue = [0], iunit = dimensionless\<rparr>,
            single_column\<lparr>yindex_attr := Some \<lparr>ivalue = [0], iunit = dimensionless\<rparr>\<rparr>)"
    using yindex_getter_regular [OF c o s f] by (simp add: n)
  have set: "(case yindex_setter (Some (Tagged \<lparr>ivalue = [0], iunit = dimensionless\<rparr>))
              (single_column\<lparr>yindex_attr := Some \<lparr>ivalue = [0], iunit = dimensionless\<rparr>\<rparr>) of
         Inl e \<Rightarrow> None
       | Inr self' \<Rightarrow> dy_attr self')
       \<noteq> Some \<lparr>qvalue = 2, qunit = dimensionless\<rparr>"
    by (simp add: yindex_setter_Some as_index_def regular_def diffs_def)
  from c o s get set show ?thesis
    by (intro conjI)
qed

subsection \<open>The span of the y-axis\<close>

text \<open>
  On a regular axis without a cached index the span is the segment of the origin and the
  origin plus extent times step, in the unit of the step.
\<close>

lemma yspan_regular:
  assumes "yindex_attr self = None" and "y0_attr self = Some v" and "dy_attr self = Some d"
    and "factor (qunit v) (qunit d) = Inr f"
  shows "yspan self =
           Inr (Segment (qvalue v * f) (qvalue v * f + of_nat (ysize self) * qvalue d))"
  using assms
  by (simp add: yspan_def y0_getter_def dy_getter_def yunit_def q_to_def)

text \<open>A step that changes drops any cached index, so the span follows the new step at once.\<close>

lemma yspan_after_step_change:
  assumes "y0_attr self = Some v" and "dy_attr self = Some d" and "q_ne d' d"
    and "factor (qunit v) (qunit d') = Inr f"
  shows "bind_err (dy_setter (Quant d') self) yspan =
           Inr (Segment (qvalue v * f) (qvalue v * f + of_nat (ysize self) * qvalue d'))"
proof -
  from assms(2,3) have "dy_setter (Quant d') self =
      Inr (self\<lparr>yindex_attr := None, dy_attr := Some d'\<rparr>)"
    by (simp add: dy_setter_def yindex_deleter_def)
  moreover have "yspan (self\<lparr>yindex_attr := None, dy_attr := Some d'\<rparr>) =
      Inr (Segment (qvalue v * f) (qvalue v * f + of_nat (ysize self) * qvalue d'))"
    using yspan_regular [of "self\<lparr>yindex_attr := None, dy_attr := Some d'\<rparr>" v d' f] assms(1,4)
    by simp
  ultimately show ?thesis by simp
qed

text \<open>
  With a cached irregular index the step slot is empty, and the span, which reads the
  step through its getter, fails with the getter's error.
\<close>

lemma yspan_irregular:
  assumes "yindex_attr self = Some idx" and "dy_attr self = None" and "\<not> regular idx"
  shows "yspan self =
           Inl (AttributeError
             ''This series has an irregular y-axis index, so 'dy' is not well defined'')"
proof -
  from assms(3) have "3 \<le> length (ivalue idx)"
    by (rule irregular_length)
  then have "0 < length (ivalue idx)" and "2 \<le> length (ivalue idx)"
    by linarith+
  with assms show ?thesis
    by (simp add: yspan_def from_end_def index_getitem_def dy_getter_def Let_def)
qed

text \<open>
  C2, at the irregular index 0, 1, 3: the span of a cached irregular index is specified as
  running from the first coordinate to the last plus the last spacing, here from 0 to
  3 + 2; the code fails with the error of the step getter.
\<close>

theorem span_of_irregular_index_fails:
  "yindex_setter (Some (Plain [0, 1, 3])) blank_2x3 = Inr irregular_2x3
   \<and> yspan irregular_2x3 =
       Inl (AttributeError
         ''This series has an irregular y-axis index, so 'dy' is not well defined'')"
proof -
  have irr: "\<not> regular \<lparr>ivalue = [0, 1, 3], iunit = dimensionless\<rparr>"
    by (simp add: regular_def diffs_def)
  have idx: "as_index default_yunit (Plain [0, 1, 3]) = \<lparr>ivalue = [0, 1, 3], iunit = dimensionless\<rparr>"
    by (simp add: as_index_def default_yunit_def)
  have set: "yindex_setter (Some (Plain [0, 1, 3])) blank_2x3 = Inr irregular_2x3"
    using irr by (simp add: yindex_setter_Some idx blank_2x3_def irregular_2x3_def)
  have "yindex_attr irregular_2x3 = Some \<lparr>ivalue = [0, 1, 3], iunit = dimensionless\<rparr>"
    and "dy_attr irregular_2x3 = None"
    by (simp_all add: irregular_2x3_def)
  then have span: "yspan irregular_2x3 =
       Inl (AttributeError
         ''This series has an irregular y-axis index, so 'dy' is not well defined'')"
    using irr by (rule yspan_irregular)
  from set span show ?thesis
    by (intro conjI)
qed

subsection \<open>Setting the step and the origin to a bare number\<close>

text \<open>
  The step setter converts a bare number from the dimensionless unit to the unit of the
  axis, which fails on every axis whose unit has a dimension; the origin setter tags it
  with the unit of the axis and cannot fail.
\<close>

lemma dy_setter_bare_fails:
  assumes "dimension (yunit self) \<noteq> []"
  shows "dy_setter (Bare b) self = Inl (UnitConversionError dimensionless (yunit self))"
proof -
  from assms have "dimension dimensionless \<noteq> dimension (yunit self)"
    by (simp add: dimensionless_def)
  then have "factor dimensionless (yunit self) = Inl (UnitConversionError dimensionless (yunit self))"
    by (auto simp add: factor_def)
  then show ?thesis
    by (simp add: dy_setter_def q_to_def)
qed

lemma y0_setter_bare_stores:
  "y0_attr (y0_setter (Bare b) self) = Some \<lparr>qvalue = b, qunit = yunit self\<rparr>"
  by (simp add: y0_setter_def tagged_value_def Let_def)

text \<open>On \<^verbatim>\<open>None\<close> and on a quantity the two setters do the same: clear, or store as given.\<close>

lemma setters_agree_on_None_and_quantities:
  "dy_setter PyNone self = Inr (self\<lparr>dy_attr := None\<rparr>)"
  "y0_setter PyNone self = self\<lparr>y0_attr := None\<rparr>"
  "\<exists>self'. dy_setter (Quant q) self = Inr self' \<and> dy_attr self' = Some q"
  "y0_attr (y0_setter (Quant q) self) = Some q"
  by (simp_all add: dy_setter_def y0_setter_def dy_deleter_def y0_deleter_def tagged_value_def
      Let_def)

text \<open>
  C9, on an axis in hertz: the bare number 2 is accepted as the origin (2 Hz) and refused
  as the step.
\<close>

theorem bare_step_refused_on_hertz_axis:
  "new_array2d blank_2x3 PyNone (Quant \<lparr>qvalue = 1, qunit = Unit ''Hz'' 1\<rparr>) None = Inr hertz_2x3
   \<and> yunit hertz_2x3 = Unit ''Hz'' 1
   \<and> y0_setter (Bare 2) hertz_2x3
       = hertz_2x3\<lparr>y0_attr := Some \<lparr>qvalue = 2, qunit = Unit ''Hz'' 1\<rparr>\<rparr>
   \<and> dy_setter (Bare 2) hertz_2x3
       = Inl (UnitConversionError dimensionless (Unit ''Hz'' 1))"
proof -
  have built: "new_array2d blank_2x3 PyNone (Quant \<lparr>qvalue = 1, qunit = Unit ''Hz'' 1\<rparr>) None
      = Inr hertz_2x3"
    by (simp add: new_array2d_def Quantity_def q_to_def dy_setter_def yindex_deleter_def
        blank_2x3_def hertz_2x3_def)
  have u: "yunit hertz_2x3 = Unit ''Hz'' 1"
    by (simp add: yunit_def hertz_2x3_def)
  have origin: "y0_setter (Bare 2) hertz_2x3
       = hertz_2x3\<lparr>y0_attr := Some \<lparr>qvalue = 2, qunit = Unit ''Hz'' 1\<rparr>\<rparr>"
    by (simp add: y0_setter_def tagged_value_def u)
      (simp add: hertz_2x3_def yindex_deleter_def)
  have "dimension (yunit hertz_2x3) \<noteq> []"
    by (simp add: u)
  then have "dy_setter (Bare 2) hertz_2x3 = Inl (UnitConversionError dimensionless (yunit hertz_2x3))"
    by (rule dy_setter_bare_fails)
  then have step: "dy_setter (Bare 2) hertz_2x3
       = Inl (UnitConversionError dimensionless (Unit ''Hz'' 1))"
    by (simp add: u)
  from built u origin step show ?thesis
    by (intro conjI)
qed

subsection \<open>Coordinate lookup\<close>

lemma xindex_getter_regular:
  assumes "xindex_attr self = None" and "x0_attr self = Some v" and "dx_attr self = Some d"
    and "factor (qunit d) (qunit v) = Inr f"
  shows "xindex_getter self =
    Inr (\<lparr>ivalue = map (\<lambda>i. qvalue v + of_nat i * qvalue d * f) [0..<xsize self],
          iunit = qunit v\<rparr>,
         self\<lparr>xindex_attr :=
           Some \<lparr>ivalue = map (\<lambda>i. qvalue v + of_nat i * qvalue d * f) [0..<xsize self],
                 iunit = qunit v\<rparr>\<rparr>)"
  using assms
  by (simp add: xindex_getter_def x0_getter_def dx_getter_def q_add_array_def arange_times_def
      o_def)

text \<open>
  When the row coordinate is not in the x-axis index, the error is one fixed message: it
  names the index searched and holds the unfilled placeholder, not the value asked for.
\<close>

lemma value_at_x_not_found:
  assumes "xindex_getter self = Inr (xi, self1)" and "Quantity x (iunit xi) = Inr xq"
    and "yindex_getter self1 = Inr (yi, self2)" and "Quantity y (iunit yi) = Inr yq"
    and "first_match (ivalue xi) (qvalue xq) = None"
  shows "value_at self x y = Inl (IndexError ''Value %r not found in array xindex'')"
  using assms by (simp add: value_at_def)

lemma value_at_y_not_found:
  assumes "xindex_getter self = Inr (xi, self1)" and "Quantity x (iunit xi) = Inr xq"
    and "yindex_getter self1 = Inr (yi, self2)" and "Quantity y (iunit yi) = Inr yq"
    and "first_match (ivalue xi) (qvalue xq) = Some idx"
    and "first_match (ivalue yi) (qvalue yq) = None"
  shows "value_at self x y = Inl (IndexError ''Value %r not found in array yindex'')"
  using assms by (simp add: value_at_def)

lemma value_at_found:
  assumes "xindex_getter self = Inr (xi, self1)" and "Quantity x (iunit xi) = Inr xq"
    and "yindex_getter self1 = Inr (yi, self2)" and "Quantity y (iunit yi) = Inr yq"
    and "first_match (ivalue xi) (qvalue xq) = Some idx"
    and "first_match (ivalue yi) (qvalue yq) = Some idy"
    and "idx < xsize self2" and "idy < ysize self2"
  shows "value_at self x y =
           Inr (Scalar \<lparr>qvalue = data self2 idx idy, qunit = unit_attr self2\<rparr>)"
  using assms by (simp add: value_at_def buffer_element_def getitem_def)

text \<open>
  C4, on the 5 x 4 grid: the lookups at the row coordinates 5/2 and 7/2, neither on the
  grid, fail with the same error, which holds neither value; a column coordinate off the
  grid fails with the message for the y-axis index; grid coordinates give the element.
\<close>

theorem lookup_error_lacks_the_value:
  "value_at grid_5x4 (Bare (5 / 2)) (Bare 10)
     = Inl (IndexError ''Value %r not found in array xindex'')
   \<and> value_at grid_5x4 (Bare (7 / 2)) (Bare 10)
     = Inl (IndexError ''Value %r not found in array xindex'')
   \<and> value_at grid_5x4 (Bare 2) (Bare 12)
     = Inl (IndexError ''Value %r not found in array yindex'')
   \<and> value_at grid_5x4 (Bare 2) (Bare 20)
     = Inr (Scalar \<lparr>qvalue = 22, qunit = dimensionless\<rparr>)"
proof -
  define xi where "xi = \<lparr>ivalue = [0, 1, 2, 3, 4 :: rat], iunit = dimensionless\<rparr>"
  define yi where "yi = \<lparr>ivalue = [10, 15, 20, 25 :: rat], iunit = dimensionless\<rparr>"
  define self1 where "self1 = grid_5x4\<lparr>xindex_attr := Some xi\<rparr>"
  define self2 where "self2 = self1\<lparr>yindex_attr := Some yi\<rparr>"
  have upt5: "[0..<5] = [0, 1, 2, 3, 4 :: nat]" and upt4: "[0..<4] = [0, 1, 2, 3 :: nat]"
    by (simp_all add: upt_rec)
  have gx: "xindex_getter grid_5x4 = Inr (xi, self1)"
    using xindex_getter_regular [of grid_5x4 "\<lparr>qvalue = 0, qunit = dimensionless\<rparr>"
        "\<lparr>qvalue = 1, qunit = dimensionless\<rparr>" 1]
    by (simp add: grid_5x4_def xi_def self1_def upt5)
  have gy: "yindex_getter self1 = Inr (yi, self2)"
    using yindex_getter_regular [of self1 "\<lparr>qvalue = 10, qunit = dimensionless\<rparr>"
        "\<lparr>qvalue = 5, qunit = dimensionless\<rparr>" 1]
    by (simp add: grid_5x4_def yi_def self1_def self2_def upt4)
  have q: "\<And>b. Quantity (Bare b) (iunit xi) = Inr \<lparr>qvalue = b, qunit = dimensionless\<rparr>"
    "\<And>b. Quantity (Bare b) (iunit yi) = Inr \<lparr>qvalue = b, qunit = dimensionless\<rparr>"
    by (simp_all add: Quantity_def xi_def yi_def)
  have a: "value_at grid_5x4 (Bare (5 / 2)) (Bare 10)
     = Inl (IndexError ''Value %r not found in array xindex'')"
    by (rule value_at_x_not_found [OF gx q(1) gy q(2)]) (simp add: xi_def)
  have b: "value_at grid_5x4 (Bare (7 / 2)) (Bare 10)
     = Inl (IndexError ''Value %r not found in array xindex'')"
    by (rule value_at_x_not_found [OF gx q(1) gy q(2)]) (simp add: xi_def)
  have c: "value_at grid_5x4 (Bare 2) (Bare 12)
     = Inl (IndexError ''Value %r not found in array yindex'')"
    by (rule value_at_y_not_found [OF gx q(1) gy q(2), where idx = 2]) (simp_all add: xi_def yi_def)
  have "value_at grid_5x4 (Bare 2) (Bare 20)
     = Inr (Scalar \<lparr>qvalue = data self2 2 2, qunit = unit_attr self2\<rparr>)"
    by (rule value_at_found [OF gx q(1) gy q(2)])
      (simp_all add: xi_def yi_def self2_def self1_def grid_5x4_def)
  then have d: "value_at grid_5x4 (Bare 2) (Bare 20)
     = Inr (Scalar \<lparr>qvalue = 22, qunit = dimensionless\<rparr>)"
    by (simp add: self2_def self1_def grid_5x4_def)
  from a b c d show ?thesis
    by (intro conjI)
qed

subsection \<open>Slicing to a vector\<close>

lemma x0_setter_Quant_slots:
  "x0_attr (x0_setter (Quant q) s) = Some q"
  "dx_attr (x0_setter (Quant q) s) = dx_attr s"
  by (cases "x0_attr s"; simp add: x0_setter_def tagged_value_def xindex_deleter_def Let_def)+

lemma dx_setter_Quant_slots:
  "\<exists>s'. dx_setter (Quant q) s = Inr s' \<and> dx_attr s' = Some q \<and> x0_attr s' = x0_attr s"
  by (cases "dx_attr s"; simp add: dx_setter_def tagged_value_def xindex_deleter_def Let_def)

lemma update_series_no_slice:
  "\<not> is_slice y \<Longrightarrow> update_series self y new = Inr new"
proof (cases y)
  case None
  then show ?thesis by (simp add: update_series_def)
next
  case (Some c)
  assume "\<not> is_slice y"
  with Some show ?thesis
    by (cases c) (simp_all add: update_series_def)
qed

text \<open>
  The range of the column component, applied to a vector when the array has no cached row
  index: origin and step are read from the x-axis of the array.
\<close>

lemma update_series_start_only:
  assumes "xindex_attr self = None" and "x0_attr self = Some xo" and "dx_attr self = Some xd"
    and "qunit xd = qunit xo" and "a \<noteq> 0"
  shows "update_series self (Some (Slice (Some a) b None)) new =
           Inr (x0_setter (Quant \<lparr>qvalue = qvalue xo + of_int a * qvalue xd,
                                   qunit = qunit xo\<rparr>) new)"
  using assms
  by (simp add: update_series_def x0_getter_def dx_getter_def q_add_def q_scale_def)

text \<open>The cross-axis assignment, when the array has origin and step set on its y-axis.\<close>

lemma unwrap_series_float_or_int:
  assumes "is_float_or_int x" and "dy_attr self = Some yd" and "y0_attr self = Some yo"
  shows "\<exists>v. unwrap_series self x new = Inr ((ColumnClass, v), self)
             \<and> x0_attr v = Some yo \<and> dx_attr v = Some yd"
proof -
  obtain s' where s': "dx_setter (Quant yd) new = Inr s'" and d: "dx_attr s' = Some yd"
    using dx_setter_Quant_slots by blast
  from assms s' have "unwrap_series self x new = Inr ((ColumnClass, x0_setter (Quant yo) s'), self)"
    by (simp add: unwrap_series_def dy_getter_def y0_getter_def)
  with d show ?thesis
    by (simp add: x0_setter_Quant_slots)
qed

lemma xindex_setter_Some:
  "xindex_setter (Some a) self =
     (if ivalue (as_index default_xunit a) = [] then Inl (IndexError ''index out of bounds'')
      else if regular (as_index default_xunit a) then
        (if length (ivalue (as_index default_xunit a)) < 2
         then Inl (IndexError ''index out of bounds'')
         else Inr (self\<lparr>x0_attr := Some \<lparr>qvalue = ivalue (as_index default_xunit a) ! 0,
                                          qunit = iunit (as_index default_xunit a)\<rparr>,
                        dx_attr := Some \<lparr>qvalue = ivalue (as_index default_xunit a) ! 1
                                                 - ivalue (as_index default_xunit a) ! 0,
                                          qunit = iunit (as_index default_xunit a)\<rparr>,
                        xindex_attr := Some (as_index default_xunit a)\<rparr>))
      else Inr (self\<lparr>x0_attr := Some \<lparr>qvalue = ivalue (as_index default_xunit a) ! 0,
                                       qunit = iunit (as_index default_xunit a)\<rparr>,
                     dx_attr := None,
                     xindex_attr := Some (as_index default_xunit a)\<rparr>))"
proof -
  let ?idx = "as_index default_xunit a"
  show ?thesis
  proof (cases "ivalue ?idx = []")
    case True
    then show ?thesis
      by (simp add: xindex_setter_def Let_def index_getitem_def)
  next
    case False
    then have len0: "0 < length (ivalue ?idx)" by simp
    show ?thesis
    proof (cases "regular ?idx")
      case irr: False
      with False len0 show ?thesis
        by (simp add: xindex_setter_def Let_def index_getitem_def x0_setter_def dx_deleter_def
            xindex_deleter_def tagged_value_def split: option.splits)
    next
      case reg: True
      show ?thesis
      proof (cases "length (ivalue ?idx) < 2")
        case True
        with False reg len0 show ?thesis
          by (simp add: xindex_setter_def Let_def index_getitem_def)
      next
        case long: False
        with False reg len0 show ?thesis
          by (simp add: xindex_setter_def Let_def index_getitem_def x0_setter_def
              dx_setter_def q_sub_def xindex_deleter_def tagged_value_def
              split: option.splits)
      qed
    qed
  qed
qed

text \<open>
  C1, on the 10 x 10 grid sliced at \<^verbatim>\<open>[3, 2:8]\<close>. Whatever the metadata of the view the
  parent returns, and whether or not a column index is cached, the vector gets the column
  step 5 but the origin 0 + 2 * 2 = 4 of the row axis, where the specification gives the
  column origin plus two column steps, 10 + 2 * 5 = 20. With a cached row index the vector's
  index is the row index sliced by the column range: 4, 6, ..., 14.
\<close>

theorem row_scalar_column_range_reads_row_axis:
  "(\<exists>v. getitem (ten_by_ten\<lparr>yindex_attr := cached\<rparr>)
            (Tuple (PyInt 3) (Slice (Some 2) (Some 8) None)) (Rank1 new)
          = Inr (Vector ColumnClass v)
        \<and> x0_attr v = Some \<lparr>qvalue = 4, qunit = dimensionless\<rparr>
        \<and> dx_attr v = Some \<lparr>qvalue = 5, qunit = dimensionless\<rparr>)
   \<and> (\<exists>v. getitem ten_by_ten_row_index
            (Tuple (PyInt 3) (Slice (Some 2) (Some 8) None)) (Rank1 new)
          = Inr (Vector ColumnClass v)
        \<and> x0_attr v = Some \<lparr>qvalue = 4, qunit = dimensionless\<rparr>
        \<and> dx_attr v = Some \<lparr>qvalue = 2, qunit = dimensionless\<rparr>
        \<and> xindex_attr v = Some \<lparr>ivalue = [4, 6, 8, 10, 12, 14], iunit = dimensionless\<rparr>)"
proof (rule conjI)
  let ?self = "ten_by_ten\<lparr>yindex_attr := cached\<rparr>"
  have slots: "dy_attr ?self = Some \<lparr>qvalue = 5, qunit = dimensionless\<rparr>"
    "y0_attr ?self = Some \<lparr>qvalue = 10, qunit = dimensionless\<rparr>"
    "xindex_attr ?self = None"
    "x0_attr ?self = Some \<lparr>qvalue = 0, qunit = dimensionless\<rparr>"
    "dx_attr ?self = Some \<lparr>qvalue = 2, qunit = dimensionless\<rparr>"
    by (simp_all add: ten_by_ten_def)
  obtain v where v: "unwrap_series ?self (PyInt 3) new = Inr ((ColumnClass, v), ?self)"
    and vd: "dx_attr v = Some \<lparr>qvalue = 5, qunit = dimensionless\<rparr>"
    using unwrap_series_float_or_int [OF _ slots(1,2), of "PyInt 3" new] by auto
  have upd: "update_series ?self (Some (Slice (Some 2) (Some 8) None)) v =
      Inr (x0_setter (Quant \<lparr>qvalue = 4, qunit = dimensionless\<rparr>) v)"
    using update_series_start_only [OF slots(3,4,5), of 2 "Some 8" v] by simp
  have "getitem ?self (Tuple (PyInt 3) (Slice (Some 2) (Some 8) None)) (Rank1 new)
      = Inr (Vector ColumnClass (x0_setter (Quant \<lparr>qvalue = 4, qunit = dimensionless\<rparr>) v))"
    by (simp add: getitem_def v upd)
  with vd show "\<exists>v. getitem ?self (Tuple (PyInt 3) (Slice (Some 2) (Some 8) None)) (Rank1 new)
          = Inr (Vector ColumnClass v)
        \<and> x0_attr v = Some \<lparr>qvalue = 4, qunit = dimensionless\<rparr>
        \<and> dx_attr v = Some \<lparr>qvalue = 5, qunit = dimensionless\<rparr>"
    by (simp add: x0_setter_Quant_slots)
next
  let ?self = ten_by_ten_row_index
  let ?rows = "\<lparr>ivalue = [0, 2, 4, 6, 8, 10, 12, 14, 16, 18 :: rat], iunit = dimensionless\<rparr>"
  let ?part = "\<lparr>ivalue = [4, 6, 8, 10, 12, 14 :: rat], iunit = dimensionless\<rparr>"
  have slots: "dy_attr ?self = Some \<lparr>qvalue = 5, qunit = dimensionless\<rparr>"
    "y0_attr ?self = Some \<lparr>qvalue = 10, qunit = dimensionless\<rparr>"
    "xindex_attr ?self = Some ?rows"
    by (simp_all add: ten_by_ten_row_index_def ten_by_ten_def)
  obtain v where v: "unwrap_series ?self (PyInt 3) new = Inr ((ColumnClass, v), ?self)"
    using unwrap_series_float_or_int [OF _ slots(1,2), of "PyInt 3" new] by auto
  have range: "py_range 2 8 1 = [2, 3, 4, 5, 6, 7]"
    by (simp add: py_range_def upt_rec)
  have sliced: "index_slice ?rows (Some 2) (Some 8) None = Inr ?part"
    by (simp add: index_slice_def slice_indices_def range)
  have reg: "regular ?part"
    by (simp add: regular_def diffs_def)
  have set: "xindex_setter (Some (Tagged ?part)) v =
      Inr (v\<lparr>x0_attr := Some \<lparr>qvalue = 4, qunit = dimensionless\<rparr>,
             dx_attr := Some \<lparr>qvalue = 2, qunit = dimensionless\<rparr>,
             xindex_attr := Some ?part\<rparr>)"
    using reg by (simp add: xindex_setter_Some as_index_def)
  have upd: "update_series ?self (Some (Slice (Some 2) (Some 8) None)) v =
      Inr (v\<lparr>x0_attr := Some \<lparr>qvalue = 4, qunit = dimensionless\<rparr>,
             dx_attr := Some \<lparr>qvalue = 2, qunit = dimensionless\<rparr>,
             xindex_attr := Some ?part\<rparr>)"
    by (simp add: update_series_def slots(3) xindex_getter_def sliced set)
  have "getitem ?self (Tuple (PyInt 3) (Slice (Some 2) (Some 8) None)) (Rank1 new)
      = Inr (Vector ColumnClass
          (v\<lparr>x0_attr := Some \<lparr>qvalue = 4, qunit = dimensionless\<rparr>,
             dx_attr := Some \<lparr>qvalue = 2, qunit = dimensionless\<rparr>,
             xindex_attr := Some ?part\<rparr>))"
    by (simp add: getitem_def v upd)
  then show "\<exists>v. getitem ?self (Tuple (PyInt 3) (Slice (Some 2) (Some 8) None)) (Rank1 new)
          = Inr (Vector ColumnClass v)
        \<and> x0_attr v = Some \<lparr>qvalue = 4, qunit = dimensionless\<rparr>
        \<and> dx_attr v = Some \<lparr>qvalue = 2, qunit = dimensionless\<rparr>
        \<and> xindex_attr v = Some ?part"
    by simp
qed

subsection \<open>The class of a one-dimensional result\<close>

lemma unwrap_series_class:
  assumes "unwrap_series self x new = Inr ((cls, v), self')"
  shows "cls = (if is_float_or_int x then ColumnClass else RowClass)"
proof (cases "is_float_or_int x")
  case False
  with assms show ?thesis
    by (simp add: unwrap_series_def)
next
  case True
  with assms show ?thesis
    by (auto simp add: unwrap_series_def bind_err_def split: sum.splits prod.splits)
qed

lemma getitem_rank1_class:
  assumes "getitem self it (Rank1 new) = Inr r"
  shows "\<exists>v. r = Vector (if is_float_or_int (row_component it) then ColumnClass else RowClass) v"
proof (cases "unwrap_series self (row_component it) new")
  case (Inl e)
  with assms show ?thesis
    by (simp add: getitem_def)
next
  case (Inr u)
  obtain cls v self' where u: "u = ((cls, v), self')"
    by (metis surj_pair)
  with Inr have cls: "cls = (if is_float_or_int (row_component it) then ColumnClass else RowClass)"
    by (simp add: unwrap_series_class)
  show ?thesis
  proof (cases "update_series self' (column_component it) v")
    case (Inl e)
    with assms Inr u show ?thesis
      by (simp add: getitem_def)
  next
    case inner: (Inr w)
    with assms Inr u have "r = Vector cls w"
      by (simp add: getitem_def)
    with cls show ?thesis by blast
  qed
qed

lemma unwrap_series_cross_assigns:
  assumes "is_float_or_int x" and "dy_getter self = Inr (yd, self1)"
  shows "\<exists>v. unwrap_series self x new = Inr ((ColumnClass, v), snd (y0_getter self1))
             \<and> x0_attr v = Some (fst (y0_getter self1)) \<and> dx_attr v = Some yd"
proof -
  obtain s' where s': "dx_setter (Quant yd) new = Inr s'" and d: "dx_attr s' = Some yd"
    using dx_setter_Quant_slots by blast
  obtain yo self2 where g: "y0_getter self1 = (yo, self2)"
    by (metis surj_pair)
  from assms s' g have "unwrap_series self x new = Inr ((ColumnClass, x0_setter (Quant yo) s'), self2)"
    by (simp add: unwrap_series_def)
  with d g show ?thesis
    by (simp add: x0_setter_Quant_slots)
qed

text \<open>
  C10: a rank-one result of the parent is viewed as the column class, with the step and
  the origin of the y-axis assigned to the vector's own axis slots, exactly when the row
  component of the index expression is a Python float or int; for any other row component
  it is viewed as the row class with the metadata the parent gave it untouched by the
  view, and is returned as it is when the column component is not a slice.
\<close>

theorem column_class_only_for_float_or_int:
  "(is_float_or_int (row_component it) \<longrightarrow>
       (\<forall>r. getitem self it (Rank1 new) = Inr r \<longrightarrow> (\<exists>v. r = Vector ColumnClass v))
     \<and> (\<forall>yd self1. dy_getter self = Inr (yd, self1) \<longrightarrow>
          (\<exists>v. unwrap_series self (row_component it) new
                  = Inr ((ColumnClass, v), snd (y0_getter self1))
               \<and> x0_attr v = Some (fst (y0_getter self1)) \<and> dx_attr v = Some yd)))
   \<and> (\<not> is_float_or_int (row_component it) \<longrightarrow>
        unwrap_series self (row_component it) new = Inr ((RowClass, new), self)
      \<and> (\<forall>r. getitem self it (Rank1 new) = Inr r \<longrightarrow> (\<exists>v. r = Vector RowClass v))
      \<and> (\<not> is_slice (column_component it) \<longrightarrow>
           getitem self it (Rank1 new) = Inr (Vector RowClass new)))"
proof (intro conjI impI allI)
  fix r
  assume "is_float_or_int (row_component it)" and "getitem self it (Rank1 new) = Inr r"
  then show "\<exists>v. r = Vector ColumnClass v"
    using getitem_rank1_class [of self it new r] by simp
next
  fix yd self1
  assume "is_float_or_int (row_component it)" and "dy_getter self = Inr (yd, self1)"
  then show "\<exists>v. unwrap_series self (row_component it) new
                  = Inr ((ColumnClass, v), snd (y0_getter self1))
               \<and> x0_attr v = Some (fst (y0_getter self1)) \<and> dx_attr v = Some yd"
    by (rule unwrap_series_cross_assigns)
next
  assume "\<not> is_float_or_int (row_component it)"
  then show "unwrap_series self (row_component it) new = Inr ((RowClass, new), self)"
    by (simp add: unwrap_series_def)
next
  fix r
  assume "\<not> is_float_or_int (row_component it)" and "getitem self it (Rank1 new) = Inr r"
  then show "\<exists>v. r = Vector RowClass v"
    using getitem_rank1_class [of self it new r] by simp
next
  assume "\<not> is_float_or_int (row_component it)" and "\<not> is_slice (column_component it)"
  then show "getitem self it (Rank1 new) = Inr (Vector RowClass new)"
    by (simp add: getitem_def unwrap_series_def update_series_no_slice)
qed

theorem column_class_only_for_float_or_int_witness:
  "is_float_or_int (row_component (Tuple (PyInt 3) (Slice (Some 2) (Some 8) None)))
   \<and> dy_getter ten_by_ten = Inr (\<lparr>qvalue = 5, qunit = dimensionless\<rparr>, ten_by_ten)
   \<and> (\<exists>v. unwrap_series ten_by_ten (PyInt 3) \<lparr>xsize = 6, x0_attr = None, dx_attr = None,
                xindex_attr = None\<rparr> = Inr ((ColumnClass, v), ten_by_ten)
         \<and> x0_attr v = Some \<lparr>qvalue = 10, qunit = dimensionless\<rparr>
         \<and> dx_attr v = Some \<lparr>qvalue = 5, qunit = dimensionless\<rparr>)
   \<and> \<not> is_float_or_int (row_component (Item (OtherInt 3)))
   \<and> \<not> is_slice (column_component (Item (OtherInt 3)))
   \<and> getitem ten_by_ten (Item (OtherInt 3))
        (Rank1 \<lparr>xsize = 10, x0_attr = None, dx_attr = None, xindex_attr = None\<rparr>)
       = Inr (Vector RowClass \<lparr>xsize = 10, x0_attr = None, dx_attr = None, xindex_attr = None\<rparr>)"
proof -
  let ?it = "Tuple (PyInt 3) (Slice (Some 2) (Some 8) None)"
  let ?n6 = "\<lparr>xsize = 6, x0_attr = None, dx_attr = None, xindex_attr = None\<rparr>"
  let ?n10 = "\<lparr>xsize = 10, x0_attr = None, dx_attr = None, xindex_attr = None\<rparr>"
  have f: "is_float_or_int (row_component ?it)"
    by simp
  have g: "dy_getter ten_by_ten = Inr (\<lparr>qvalue = 5, qunit = dimensionless\<rparr>, ten_by_ten)"
    by (simp add: dy_getter_def ten_by_ten_def)
  have y: "y0_getter ten_by_ten = (\<lparr>qvalue = 10, qunit = dimensionless\<rparr>, ten_by_ten)"
    by (simp add: y0_getter_def ten_by_ten_def)
  from column_class_only_for_float_or_int [of ?it ten_by_ten ?n6] f g
  have "\<exists>v. unwrap_series ten_by_ten (row_component ?it) ?n6
                  = Inr ((ColumnClass, v), snd (y0_getter ten_by_ten))
               \<and> x0_attr v = Some (fst (y0_getter ten_by_ten))
               \<and> dx_attr v = Some \<lparr>qvalue = 5, qunit = dimensionless\<rparr>"
    by blast
  then have col: "\<exists>v. unwrap_series ten_by_ten (PyInt 3) ?n6 = Inr ((ColumnClass, v), ten_by_ten)
         \<and> x0_attr v = Some \<lparr>qvalue = 10, qunit = dimensionless\<rparr>
         \<and> dx_attr v = Some \<lparr>qvalue = 5, qunit = dimensionless\<rparr>"
    by (simp add: y)
  have nf: "\<not> is_float_or_int (row_component (Item (OtherInt 3)))"
    and ns: "\<not> is_slice (column_component (Item (OtherInt 3)))"
    by simp_all
  from column_class_only_for_float_or_int [of "Item (OtherInt 3)" ten_by_ten ?n10] nf ns
  have row: "getitem ten_by_ten (Item (OtherInt 3)) (Rank1 ?n10) = Inr (Vector RowClass ?n10)"
    by blast
  from f g col nf ns row show ?thesis
    by (intro conjI)
qed

subsection \<open>A cached index comes with an origin\<close>

text \<open>
  Whichever way an index came to be cached, by materialising it or by setting it, the
  origin slot is filled by then.
\<close>

lemma materialised_index_has_origin:
  assumes "yindex_attr self = None" and "yindex_getter self = Inr (idx, self')"
  shows "yindex_attr self' = Some idx \<and> y0_attr self' \<noteq> None"
  using assms
  by (auto simp add: yindex_getter_def y0_getter_def dy_getter_def bind_err_def Let_def
      split: option.splits sum.splits if_splits)

lemma set_index_has_origin:
  assumes "yindex_setter (Some a) self = Inr self'"
  shows "yindex_attr self' = Some (as_index default_yunit a) \<and> y0_attr self' \<noteq> None"
  using assms by (auto simp add: yindex_setter_Some split: if_splits)

end
